theory Spec2Isabelle
  imports
    Complex_Main
    "HOL-Library.AList"
    "HOL-Library.Char_ord"
    "HOL-Library.List_Lexorder"
    "HOL-Library.Log_Nat"
    "HOL-Library.Multiset"
begin

section \<open>Python numbers\<close>

text \<open>
  The quantities of \<^verbatim>\<open>meal_planner_app.py\<close> are Python floats: \<^verbatim>\<open>num_people / default_portions\<close>
  is a true division, so every scaled quantity and every running total is a binary64 number.
  A finite binary64 value is a rational; each arithmetic operation returns the exact result
  rounded to the nearest number with a 53-bit significand, ties to even. The exponent range is
  not bounded here: the model is the program's arithmetic as long as no result overflows
  (about \<open>1.8e308\<close>) or is subnormal (below about \<open>2.2e-308\<close>). Integers of the catalog and
  the people counts are Python ints; an int operand is converted to a float exactly (below
  \<open>2^53\<close>), and an int divided by an int is the correctly rounded quotient.
\<close>

definition round_half_even :: "rat \<Rightarrow> int" where
  "round_half_even x =
     (let f = \<lfloor>x\<rfloor>; d = x - of_int f
      in if d < 1 / 2 then f else if 1 / 2 < d then f + 1 else if even f then f else f + 1)"

definition exponent :: "rat \<Rightarrow> int" where
  \<comment> \<open>the \<open>e\<close> with \<open>2^e \<le> |x| < 2^(e+1)\<close>, for \<open>x \<noteq> 0\<close>\<close>
  "exponent x =
     (let (a, b) = quotient_of \<bar>x\<bar>; d = bitlen a - bitlen b
      in if 2 powi d \<le> \<bar>x\<bar> then d else d - 1)"

definition fl :: "rat \<Rightarrow> rat" where
  \<comment> \<open>round to nearest binary64, ties to even\<close>
  "fl x = (if x = 0 then 0
           else let s = 2 powi (52 - exponent x) in of_int (round_half_even (x * s)) / s)"

definition float_add :: "rat \<Rightarrow> rat \<Rightarrow> rat" where
  "float_add x y = fl (x + y)"

definition float_mul :: "rat \<Rightarrow> rat \<Rightarrow> rat" where
  "float_mul x y = fl (x * y)"

definition true_div :: "rat \<Rightarrow> rat \<Rightarrow> rat" where
  \<comment> \<open>\<^verbatim>\<open>x / y\<close> for \<open>y \<noteq> 0\<close>; the callers raise \<^verbatim>\<open>ZeroDivisionError\<close> for \<open>y = 0\<close>\<close>
  "true_div x y = fl (x / y)"

datatype py_error = ZeroDivisionError | KeyError

section \<open>Catalog\<close>

datatype day = Sunday | Monday | Tuesday | Wednesday | Thursday | Friday | Saturday

datatype meal_type = Breakfast | Lunch | Dinner

record ingredient =
  item :: string
  quantity :: rat
  unit :: string

text \<open>
  A meal record of \<^verbatim>\<open>meals.json\<close>. The keys read with \<^verbatim>\<open>.get(key, default)\<close> are optional.
\<close>

record meal =
  name :: string
  type :: "meal_type list"
  difficulty :: string
  ingredients :: "ingredient list"
  recipe :: string
  is_salad :: "bool option"
  meal_prep :: "bool option"
  default_portions :: "rat option"

fun get_meal_by_name :: "string \<Rightarrow> meal list \<Rightarrow> meal option" where
  "get_meal_by_name n [] = None"
| "get_meal_by_name n (meal # meals_db) =
     (if name meal = n then Some meal else get_meal_by_name n meals_db)"

section \<open>Plan state\<close>

text \<open>
  \<^verbatim>\<open>st.session_state.plan\<close> is a dict from day to a dict from meal type to a selection dict
  with the optional keys \<^verbatim>\<open>'name'\<close>, \<^verbatim>\<open>'people'\<close> and \<^verbatim>\<open>'salad'\<close>. Python dicts keep
  insertion order and the aggregation iterates in that order, so a dict is an association
  list: \<open>map_of\<close> reads a key, \<open>AList.update\<close> overwrites in place or appends a new key,
  \<open>AList.delete\<close> removes a key.
\<close>

record selection =
  sel_name :: "string option"
  sel_people :: "int option"
  sel_salad :: "string option"

type_synonym plan = "(day \<times> (meal_type \<times> selection) list) list"

definition get_default :: "('k \<times> 'v) list \<Rightarrow> 'k \<Rightarrow> 'v \<Rightarrow> 'v" where
  \<comment> \<open>\<^verbatim>\<open>d.get(k, default)\<close>\<close>
  "get_default d k dflt = (case map_of d k of None \<Rightarrow> dflt | Some v \<Rightarrow> v)"

definition get_default_opt :: "'v option \<Rightarrow> 'v \<Rightarrow> 'v" where
  \<comment> \<open>\<^verbatim>\<open>record.get(key, default)\<close> for an optional key of a record\<close>
  "get_default_opt v dflt = (case v of None \<Rightarrow> dflt | Some x \<Rightarrow> x)"

definition empty_selection :: selection where
  "empty_selection = \<lparr>sel_name = None, sel_people = None, sel_salad = None\<rparr>"

definition slot :: "plan \<Rightarrow> day \<Rightarrow> meal_type \<Rightarrow> selection option" where
  "slot p d mt = (case map_of p d of None \<Rightarrow> None | Some meals \<Rightarrow> map_of meals mt)"

definition set_main :: "day \<Rightarrow> meal_type \<Rightarrow> string \<Rightarrow> int \<Rightarrow> plan \<Rightarrow> plan" where
  \<comment> \<open>lines 218-221\<close>
  "set_main d mt selected_meal num_people p =
     (if selected_meal \<noteq> ''-'' then
        AList.update d
          (AList.update mt
             \<lparr>sel_name = Some selected_meal, sel_people = Some num_people, sel_salad = None\<rparr>
             (get_default p d [])) p
      else if mt \<in> fst ` set (get_default p d []) then
        AList.update d (AList.delete mt (get_default p d [])) p
      else p)"

definition set_salad :: "day \<Rightarrow> meal_type \<Rightarrow> string \<Rightarrow> plan \<Rightarrow> plan" where
  \<comment> \<open>lines 230-233\<close>
  "set_salad d mt selected_salad p =
     (let meals = get_default p d []; sel = get_default meals mt empty_selection
      in if selected_salad \<noteq> ''-'' then
           AList.update d (AList.update mt (sel\<lparr>sel_salad := Some selected_salad\<rparr>) meals) p
         else if sel_salad sel \<noteq> None then
           AList.update d (AList.update mt (sel\<lparr>sel_salad := None\<rparr>) meals) p
         else p)"

definition update_slot :: "day \<Rightarrow> meal_type \<Rightarrow> string \<Rightarrow> int \<Rightarrow> string \<Rightarrow> plan \<Rightarrow> plan" where
  \<comment> \<open>lines 218-233: the main selectbox and people input, then the salad selectbox that
      only Lunch and Dinner have\<close>
  "update_slot d mt selected_meal num_people selected_salad p =
     (let p1 = set_main d mt selected_meal num_people p
      in if mt \<in> {Lunch, Dinner} then set_salad d mt selected_salad p1 else p1)"

definition days_of_week :: "day list" where
  "days_of_week = [Sunday, Monday, Tuesday, Wednesday, Thursday, Friday, Saturday]"

definition meal_types :: "meal_type list" where
  "meal_types = [Breakfast, Lunch, Dinner]"

text \<open>
  One run of the script over the widgets (lines 197-233): \<open>w d mt\<close> is the value of the
  three widgets of a slot, the selected meal, the people count and the selected salad.
\<close>

definition rerun_day :: "(day \<Rightarrow> meal_type \<Rightarrow> string \<times> int \<times> string) \<Rightarrow> plan \<Rightarrow> day \<Rightarrow> plan" where
  "rerun_day w p d =
     foldl (\<lambda>q mt. case w d mt of (selected_meal, num_people, selected_salad) \<Rightarrow>
                      update_slot d mt selected_meal num_people selected_salad q)
       (if d \<in> fst ` set p then p else AList.update d [] p) meal_types"

definition rerun :: "(day \<Rightarrow> meal_type \<Rightarrow> string \<times> int \<times> string) \<Rightarrow> plan \<Rightarrow> plan" where
  "rerun w p = foldl (rerun_day w) p days_of_week"

inductive reachable :: "plan \<Rightarrow> bool" where
  initial: "reachable []"
| step: "reachable p \<Longrightarrow> reachable (rerun w p)"

section \<open>Aggregation\<close>

text \<open>
  The state of the handler of the Generate button (lines 241-244): the shopping list is a
  \<^verbatim>\<open>defaultdict\<close> from item name to a running quantity and a set of units.
\<close>

record agg_state =
  shopping_list :: "(string \<times> rat \<times> string set) list"
  final_plan :: "(day \<times> (meal_type \<times> string \<times> string) list) list"
  prep_list :: "string list"
  is_plan_empty :: bool

definition initial_state :: agg_state where
  "initial_state = \<lparr>shopping_list = [], final_plan = [], prep_list = [], is_plan_empty = True\<rparr>"

definition add_ingredient ::
  "rat \<Rightarrow> (string \<times> rat \<times> string set) list \<Rightarrow> ingredient \<Rightarrow> (string \<times> rat \<times> string set) list" where
  \<comment> \<open>lines 257-260, the body of the loop over the ingredients\<close>
  "add_ingredient scaling_factor sl ingredient =
     (let scaled_quantity = float_mul (quantity ingredient) scaling_factor;
          (q, us) = get_default sl (item ingredient) (0, {})
      in AList.update (item ingredient) (float_add q scaled_quantity, insert (unit ingredient) us) sl)"

definition portions :: "meal \<Rightarrow> rat" where
  \<comment> \<open>line 253: \<^verbatim>\<open>meal_details.get('default_portions', 1)\<close>\<close>
  "portions meal_details = get_default_opt (default_portions meal_details) 1"

definition add_ingredients_to_list ::
  "meal list \<Rightarrow> string \<Rightarrow> int \<Rightarrow> agg_state \<Rightarrow> py_error + agg_state" where
  \<comment> \<open>lines 246-260; line 254 raises \<^verbatim>\<open>ZeroDivisionError\<close> for zero portions\<close>
  "add_ingredients_to_list MEALS meal_name num_people st =
     (case get_meal_by_name meal_name MEALS of
        None \<Rightarrow> Inr st
      | Some meal_details \<Rightarrow>
          (let st1 = (if get_default_opt (meal_prep meal_details) False
                      then st\<lparr>prep_list := prep_list st @ [name meal_details]\<rparr> else st)
           in if portions meal_details = 0 then Inl ZeroDivisionError
              else (let scaling_factor = true_div (of_int num_people) (portions meal_details)
                    in Inr (st1\<lparr>shopping_list :=
                              foldl (add_ingredient scaling_factor)
                                (shopping_list st1) (ingredients meal_details)\<rparr>))))"

definition process_main ::
  "meal list \<Rightarrow> day \<Rightarrow> meal_type \<Rightarrow> selection \<Rightarrow> agg_state \<Rightarrow> py_error + agg_state" where
  \<comment> \<open>lines 266-276; \<^verbatim>\<open>selection['people']\<close> raises \<^verbatim>\<open>KeyError\<close> when the key is absent\<close>
  "process_main MEALS d mt sel st =
     (case sel_name sel of
        None \<Rightarrow> Inr st
      | Some main_meal_name \<Rightarrow>
          (let st1 = st\<lparr>is_plan_empty := False\<rparr>
           in case sel_people sel of
                None \<Rightarrow> Inl KeyError
              | Some num_people \<Rightarrow>
                  (case get_meal_by_name main_meal_name MEALS of
                     None \<Rightarrow> Inr st1
                   | Some main_meal_details \<Rightarrow>
                       add_ingredients_to_list MEALS main_meal_name num_people
                         (st1\<lparr>final_plan :=
                            AList.update d
                              (AList.update mt
                                 (name main_meal_details, difficulty main_meal_details)
                                 (get_default (final_plan st1) d []))
                              (final_plan st1)\<rparr>))))"

definition process_salad :: "meal list \<Rightarrow> selection \<Rightarrow> agg_state \<Rightarrow> py_error + agg_state" where
  \<comment> \<open>lines 278-282\<close>
  "process_salad MEALS sel st =
     (case sel_salad sel of
        None \<Rightarrow> Inr st
      | Some salad_name \<Rightarrow>
          (let num_people_salad = get_default_opt (sel_people sel) 1
           in add_ingredients_to_list MEALS salad_name num_people_salad
                (st\<lparr>is_plan_empty := False\<rparr>)))"

definition process_selection ::
  "meal list \<Rightarrow> day \<Rightarrow> meal_type \<Rightarrow> selection \<Rightarrow> agg_state \<Rightarrow> py_error + agg_state" where
  \<comment> \<open>lines 266-282, the body of the loop over the slots of a day\<close>
  "process_selection MEALS d mt sel st =
     (case process_main MEALS d mt sel st of
        Inl e \<Rightarrow> Inl e
      | Inr st1 \<Rightarrow> process_salad MEALS sel st1)"

fun process_meals ::
  "meal list \<Rightarrow> day \<Rightarrow> (meal_type \<times> selection) list \<Rightarrow> agg_state \<Rightarrow> py_error + agg_state" where
  "process_meals MEALS d [] st = Inr st"
| "process_meals MEALS d ((mt, sel) # meals) st =
     (case process_selection MEALS d mt sel st of
        Inl e \<Rightarrow> Inl e
      | Inr st' \<Rightarrow> process_meals MEALS d meals st')"

fun process_plan :: "meal list \<Rightarrow> plan \<Rightarrow> agg_state \<Rightarrow> py_error + agg_state" where
  \<comment> \<open>lines 262-282\<close>
  "process_plan MEALS [] st = Inr st"
| "process_plan MEALS ((d, meals) # days) st =
     (case process_meals MEALS d meals (st\<lparr>final_plan := AList.update d [] (final_plan st)\<rparr>) of
        Inl e \<Rightarrow> Inl e
      | Inr st' \<Rightarrow> process_plan MEALS days st')"

section \<open>Output\<close>

definition final_quantity :: "rat \<Rightarrow> rat" where
  \<comment> \<open>line 292: \<^verbatim>\<open>math.ceil(data['quantity'] * 100) / 100\<close>\<close>
  "final_quantity q = true_div (of_int \<lceil>float_mul q 100\<rceil>) 100"

fun join :: "string \<Rightarrow> string list \<Rightarrow> string" where
  \<comment> \<open>\<^verbatim>\<open>sep.join(xs)\<close>\<close>
  "join sep [] = []"
| "join sep [x] = x"
| "join sep (x # y # ys) = x @ sep @ join sep (y # ys)"

definition units_str :: "string set \<Rightarrow> string" where
  \<comment> \<open>line 293\<close>
  "units_str us = join '', '' (sorted_list_of_set us)"

definition shopping_df_data ::
  "(string \<times> rat \<times> string set) list \<Rightarrow> (string \<times> rat \<times> string) list" where
  \<comment> \<open>lines 290-294; the keys of a dict are distinct, so \<^verbatim>\<open>sorted\<close> on the items
      orders them by key\<close>
  "shopping_df_data sl =
     map (\<lambda>(i, q, us). (i, final_quantity q, units_str us)) (sort_key fst sl)"



text \<open>
  What the handler shows: the warning of line 285, or the rows of the table, from which the
  text of the download is built, and the two arguments of \<^verbatim>\<open>create_meal_plan_image\<close> (the
  rendering itself is outside this model). An exception of the handler is an \<open>Inl\<close>.
\<close>

datatype outcome =
  EmptyPlanWarning
| Artifacts
    (table: "(string \<times> rat \<times> string) list")
    (timetable: "(day \<times> (meal_type \<times> string \<times> string) list) list")
    (unique_prep_list: "string list")

definition generate :: "meal list \<Rightarrow> plan \<Rightarrow> py_error + outcome" where
  \<comment> \<open>lines 239-319\<close>
  "generate MEALS p =
     (case process_plan MEALS p initial_state of
        Inl e \<Rightarrow> Inl e
      | Inr st \<Rightarrow>
          if is_plan_empty st then Inr EmptyPlanWarning
          else Inr (Artifacts
                 (shopping_df_data (shopping_list st))
                 (final_plan st)
                 (sorted_list_of_set (set (prep_list st)))))"

section \<open>Invariant of the plan state\<close>

text \<open>
  What every plan built by the script satisfies: only Lunch and Dinner slots hold a salad, the
  sentinel \<^verbatim>\<open>"-"\<close> is never stored, and \<^verbatim>\<open>'people'\<close> is present exactly when \<^verbatim>\<open>'name'\<close> is.
\<close>

definition plan_inv :: "plan \<Rightarrow> bool" where
  "plan_inv p \<longleftrightarrow>
     (\<forall>d mt sel. slot p d mt = Some sel \<longrightarrow>
        (sel_salad sel \<noteq> None \<longrightarrow> mt \<in> {Lunch, Dinner}) \<and> sel_salad sel \<noteq> Some ''-'' \<and>
        sel_name sel \<noteq> Some ''-'' \<and> (sel_people sel = None \<longleftrightarrow> sel_name sel = None))"

section \<open>Specification of the aggregation\<close>

text \<open>
  The aggregation as a list of contributions: every resolved meal of the plan, in processing
  order, contributes one triple of item, scaled quantity and unit per ingredient.
\<close>

type_synonym shopping = "(string \<times> rat \<times> string set) list"

definition accumulate :: "shopping \<Rightarrow> string \<times> rat \<times> string \<Rightarrow> shopping" where
  "accumulate sl c =
     (case c of (i, q, u) \<Rightarrow>
        (case get_default sl i (0, {}) of (q0, us) \<Rightarrow>
           AList.update i (float_add q0 q, insert u us) sl))"

definition meal_contributions :: "meal \<Rightarrow> int \<Rightarrow> (string \<times> rat \<times> string) list" where
  "meal_contributions m n =
     map (\<lambda>i. (item i, float_mul (quantity i) (true_div (of_int n) (portions m)), unit i))
       (ingredients m)"

definition main_calls :: "meal list \<Rightarrow> selection \<Rightarrow> (meal \<times> int) list" where
  "main_calls MEALS sel =
     (case sel_name sel of
        None \<Rightarrow> []
      | Some main_meal_name \<Rightarrow>
          (case sel_people sel of
             None \<Rightarrow> []
           | Some n \<Rightarrow>
               (case get_meal_by_name main_meal_name MEALS of None \<Rightarrow> [] | Some m \<Rightarrow> [(m, n)])))"

definition salad_calls :: "meal list \<Rightarrow> selection \<Rightarrow> (meal \<times> int) list" where
  "salad_calls MEALS sel =
     (case sel_salad sel of
        None \<Rightarrow> []
      | Some salad_name \<Rightarrow>
          (case get_meal_by_name salad_name MEALS of
             None \<Rightarrow> []
           | Some m \<Rightarrow> [(m, get_default_opt (sel_people sel) 1)]))"

definition selection_calls :: "meal list \<Rightarrow> selection \<Rightarrow> (meal \<times> int) list" where
  "selection_calls MEALS sel = main_calls MEALS sel @ salad_calls MEALS sel"

definition selection_ok :: "meal list \<Rightarrow> selection \<Rightarrow> bool" where
  "selection_ok MEALS sel \<longleftrightarrow>
     (sel_name sel \<noteq> None \<longrightarrow> sel_people sel \<noteq> None) \<and>
     (\<forall>(m, n) \<in> set (selection_calls MEALS sel). portions m \<noteq> 0)"

definition calls_contributions :: "(meal \<times> int) list \<Rightarrow> (string \<times> rat \<times> string) list" where
  "calls_contributions cs = concat (map (\<lambda>(m, n). meal_contributions m n) cs)"

definition calls_preps :: "(meal \<times> int) list \<Rightarrow> string list" where
  "calls_preps cs = map (name \<circ> fst) (filter (\<lambda>(m, n). get_default_opt (meal_prep m) False) cs)"

text \<open>What a successful step does to the three components, and when a step succeeds.\<close>

definition step_spec :: "(meal \<times> int) list \<Rightarrow> bool \<Rightarrow> agg_state \<Rightarrow> agg_state \<Rightarrow> bool" where
  "step_spec cs selected st st' \<longleftrightarrow>
     shopping_list st' = foldl accumulate (shopping_list st) (calls_contributions cs) \<and>
     prep_list st' = prep_list st @ calls_preps cs \<and>
     is_plan_empty st' = (is_plan_empty st \<and> \<not> selected)"

definition plan_selections :: "plan \<Rightarrow> selection list" where
  "plan_selections p = concat (map (\<lambda>(d, meals). map snd meals) p)"

definition plan_calls :: "meal list \<Rightarrow> plan \<Rightarrow> (meal \<times> int) list" where
  "plan_calls MEALS p = concat (map (selection_calls MEALS) (plan_selections p))"

definition contributions :: "meal list \<Rightarrow> plan \<Rightarrow> (string \<times> rat \<times> string) list" where
  "contributions MEALS p = calls_contributions (plan_calls MEALS p)"

definition plan_ok :: "meal list \<Rightarrow> plan \<Rightarrow> bool" where
  "plan_ok MEALS p \<longleftrightarrow> (\<forall>sel \<in> set (plan_selections p). selection_ok MEALS sel)"

definition selected :: "selection \<Rightarrow> bool" where
  "selected sel \<longleftrightarrow> sel_name sel \<noteq> None \<or> sel_salad sel \<noteq> None"

definition plan_selected :: "plan \<Rightarrow> bool" where
  "plan_selected p \<longleftrightarrow> (\<exists>sel \<in> set (plan_selections p). selected sel)"

definition item_quantities :: "(string \<times> rat \<times> string) list \<Rightarrow> string \<Rightarrow> rat list" where
  "item_quantities cs x = map (fst \<circ> snd) (filter (\<lambda>c. fst c = x) cs)"

definition item_units :: "(string \<times> rat \<times> string) list \<Rightarrow> string \<Rightarrow> string set" where
  "item_units cs x = (snd \<circ> snd) ` set (filter (\<lambda>c. fst c = x) cs)"

definition raw_sum :: "(string \<times> rat \<times> string) list \<Rightarrow> string \<Rightarrow> rat" where
  "raw_sum cs x = foldl float_add 0 (item_quantities cs x)"

definition table_of :: "(string \<times> rat \<times> string) list \<Rightarrow> (string \<times> rat \<times> string) list" where
  "table_of cs =
     map (\<lambda>x. (x, final_quantity (raw_sum cs x), units_str (item_units cs x)))
       (sorted_list_of_set (fst ` set cs))"

section \<open>Example data\<close>

definition example_widgets :: "day \<Rightarrow> meal_type \<Rightarrow> string \<times> int \<times> string" where
  "example_widgets d mt =
     (if d = Monday \<and> mt = Lunch then (''Pasta'', 2, ''Garden Salad'') else (''-'', 1, ''-''))"

text \<open>The catalog and the plan of the example of section 8 of the specification.\<close>

definition oat_bowl :: meal where
  "oat_bowl =
     \<lparr>name = ''Oat Bowl'', type = [Breakfast], difficulty = ''Easy'',
      ingredients = [\<lparr>item = ''oats'', quantity = 200, unit = ''g''\<rparr>],
      recipe = ''Soak the oats.'', is_salad = None, meal_prep = Some True,
      default_portions = Some 2\<rparr>"

definition garden_salad :: meal where
  "garden_salad =
     \<lparr>name = ''Garden Salad'', type = [Lunch, Dinner], difficulty = ''Easy'',
      ingredients = [\<lparr>item = ''lettuce'', quantity = 1, unit = ''head''\<rparr>],
      recipe = ''Wash and tear.'', is_salad = Some True, meal_prep = None,
      default_portions = None\<rparr>"

definition example_catalog :: "meal list" where
  "example_catalog = [oat_bowl, garden_salad]"




text \<open>
  A catalog with integer data only: a meal calibrated for five portions, a meal calibrated for
  ten portions that fits every slot, two meals that share an item under two units, and a meal
  that lists an item twice.
\<close>

definition rice_pot :: meal where
  "rice_pot =
     \<lparr>name = ''Rice Pot'', type = [Lunch, Dinner], difficulty = ''Easy'',
      ingredients = [\<lparr>item = ''rice'', quantity = 7, unit = ''cup''\<rparr>],
      recipe = ''Boil.'', is_salad = None, meal_prep = None, default_portions = Some 5\<rparr>"

definition porridge :: meal where
  "porridge =
     \<lparr>name = ''Porridge'', type = [Breakfast, Lunch, Dinner], difficulty = ''Easy'',
      ingredients = [\<lparr>item = ''salt'', quantity = 1, unit = ''tsp''\<rparr>],
      recipe = ''Stir.'', is_salad = None, meal_prep = Some True, default_portions = Some 10\<rparr>"

definition tomato_soup :: meal where
  "tomato_soup =
     \<lparr>name = ''Tomato Soup'', type = [Lunch, Dinner], difficulty = ''Medium'',
      ingredients = [\<lparr>item = ''tomato'', quantity = 6, unit = ''piece''\<rparr>,
                     \<lparr>item = ''onion'', quantity = 1, unit = ''piece''\<rparr>],
      recipe = ''Simmer.'', is_salad = None, meal_prep = Some True, default_portions = Some 4\<rparr>"

definition tomato_salad :: meal where
  "tomato_salad =
     \<lparr>name = ''Tomato Salad'', type = [Lunch, Dinner], difficulty = ''Easy'',
      ingredients = [\<lparr>item = ''tomato'', quantity = 250, unit = ''g''\<rparr>],
      recipe = ''Slice.'', is_salad = Some True, meal_prep = None, default_portions = Some 2\<rparr>"

definition pancakes :: meal where
  "pancakes =
     \<lparr>name = ''Pancakes'', type = [Breakfast], difficulty = ''Medium'',
      ingredients = [\<lparr>item = ''flour'', quantity = 100, unit = ''g''\<rparr>,
                     \<lparr>item = ''milk'', quantity = 200, unit = ''ml''\<rparr>,
                     \<lparr>item = ''flour'', quantity = 2, unit = ''tbsp''\<rparr>],
      recipe = ''Fry.'', is_salad = None, meal_prep = None, default_portions = None\<rparr>"

definition demo_catalog :: "meal list" where
  "demo_catalog = [rice_pot, porridge, tomato_soup, tomato_salad, pancakes]"



text \<open>A slot with a main and a salad that share the item \<^verbatim>\<open>tomato\<close> under two units.\<close>

definition tomato_plan :: plan where
  "tomato_plan =
     [(Monday, [(Lunch, \<lparr>sel_name = Some ''Tomato Soup'', sel_people = Some 2,
                          sel_salad = Some ''Tomato Salad''\<rparr>)])]"

text \<open>One person eats from the pot calibrated for five.\<close>

definition rice_plan :: plan where
  "rice_plan =
     [(Monday, [(Dinner, \<lparr>sel_name = Some ''Rice Pot'', sel_people = Some 1, sel_salad = None\<rparr>)])]"

text \<open>
  Porridge on Sunday for one at Breakfast, two at Lunch and three at Dinner; \<open>k\<close> says how
  many of the three selectboxes, counted from Dinner backwards, are set already.
\<close>

definition porridge_widgets :: "nat \<Rightarrow> day \<Rightarrow> meal_type \<Rightarrow> string \<times> int \<times> string" where
  "porridge_widgets k d mt =
     (if d = Sunday \<and> mt = Dinner \<and> 1 \<le> k then (''Porridge'', 3, ''-'')
      else if d = Sunday \<and> mt = Lunch \<and> 2 \<le> k then (''Porridge'', 2, ''-'')
      else if d = Sunday \<and> mt = Breakfast \<and> 3 \<le> k then (''Porridge'', 1, ''-'')
      else (''-'', 1, ''-''))"

text \<open>
  The plan when the three selectboxes are set before the first run that stores them, and the
  plan when they are set one per run, Dinner first: the same entries, stored in two orders.
\<close>

definition porridge_plan_at_once :: plan where
  "porridge_plan_at_once =
     [(Sunday,
       [(Breakfast, \<lparr>sel_name = Some ''Porridge'', sel_people = Some 1, sel_salad = None\<rparr>),
        (Lunch, \<lparr>sel_name = Some ''Porridge'', sel_people = Some 2, sel_salad = None\<rparr>),
        (Dinner, \<lparr>sel_name = Some ''Porridge'', sel_people = Some 3, sel_salad = None\<rparr>)]),
      (Monday, []), (Tuesday, []), (Wednesday, []), (Thursday, []), (Friday, []),
      (Saturday, [])]"

definition porridge_plan_backwards :: plan where
  "porridge_plan_backwards =
     [(Sunday,
       [(Dinner, \<lparr>sel_name = Some ''Porridge'', sel_people = Some 3, sel_salad = None\<rparr>),
        (Lunch, \<lparr>sel_name = Some ''Porridge'', sel_people = Some 2, sel_salad = None\<rparr>),
        (Breakfast, \<lparr>sel_name = Some ''Porridge'', sel_people = Some 1, sel_salad = None\<rparr>)]),
      (Monday, []), (Tuesday, []), (Wednesday, []), (Thursday, []), (Friday, []),
      (Saturday, [])]"

definition people_with_name :: "plan \<Rightarrow> bool" where
  "people_with_name p \<longleftrightarrow>
     (\<forall>sel \<in> set (plan_selections p). sel_name sel \<noteq> None \<longrightarrow> sel_people sel \<noteq> None)"

text \<open>
  The plan without its stale references: a main name or a salad name that the catalog does
  not have is taken out of its selection; the people count stays.
\<close>

definition drop_unknown_name :: "meal list \<Rightarrow> string option \<Rightarrow> string option" where
  "drop_unknown_name MEALS nm =
     (case nm of
        None \<Rightarrow> None
      | Some n \<Rightarrow> (case get_meal_by_name n MEALS of None \<Rightarrow> None | Some m \<Rightarrow> Some n))"

definition drop_unknown_selection :: "meal list \<Rightarrow> selection \<Rightarrow> selection" where
  "drop_unknown_selection MEALS sel =
     sel\<lparr>sel_name := drop_unknown_name MEALS (sel_name sel),
         sel_salad := drop_unknown_name MEALS (sel_salad sel)\<rparr>"

definition drop_unknown :: "meal list \<Rightarrow> plan \<Rightarrow> plan" where
  "drop_unknown MEALS p =
     map (\<lambda>(d, meals). (d, map (\<lambda>(mt, sel). (mt, drop_unknown_selection MEALS sel)) meals)) p"

text \<open>Oat Bowl on Sunday; on Monday a main that the catalog does not have, with a salad.\<close>

definition stale_widgets :: "day \<Rightarrow> meal_type \<Rightarrow> string \<times> int \<times> string" where
  "stale_widgets d mt =
     (if d = Sunday \<and> mt = Breakfast then (''Oat Bowl'', 3, ''-'')
      else if d = Monday \<and> mt = Lunch then (''Ghost Stew'', 2, ''Garden Salad'')
      else (''-'', 1, ''-''))"

text \<open>A slot with a salad only, and a slot with a main for four and the same salad.\<close>

definition salad_only :: selection where
  "salad_only = \<lparr>sel_name = None, sel_people = None, sel_salad = Some ''Tomato Salad''\<rparr>"

definition soup_and_salad :: selection where
  "soup_and_salad =
     \<lparr>sel_name = Some ''Tomato Soup'', sel_people = Some 4, sel_salad = Some ''Tomato Salad''\<rparr>"

section \<open>Rounding\<close>

text \<open>
  The exponent brackets the number, so the significand of \<open>fl x\<close> has 53 bits, and rounding
  changes a number by at most the fraction \<open>1 / 2^53\<close> of its size.
\<close>

lemma round_half_even_error: "\<bar>of_int (round_half_even y) - y\<bar> \<le> 1 / 2"
proof -
  have "of_int \<lfloor>y\<rfloor> \<le> y" "y < of_int \<lfloor>y\<rfloor> + 1"
    by linarith+
  then show ?thesis
    unfolding round_half_even_def Let_def by (auto simp: abs_le_iff)
qed

lemma exponent_lower:
  assumes "x \<noteq> 0"
  shows "2 powi (exponent x) \<le> \<bar>x\<bar>"
proof -
  obtain a b where ab: "quotient_of \<bar>x\<bar> = (a, b)" by (cases "quotient_of \<bar>x\<bar>")
  then have b: "0 < b" and x: "\<bar>x\<bar> = of_int a / of_int b"
    by (auto dest: quotient_of_denom_pos quotient_of_div)
  from assms have "0 < \<bar>x\<bar>" by simp
  with x b have a: "0 < a" by (simp add: zero_less_divide_iff)
  define d where "d = bitlen a - bitlen b"
  show ?thesis
  proof (cases "2 powi d \<le> \<bar>x\<bar>")
    case True
    then show ?thesis by (simp add: exponent_def ab d_def)
  next
    case False
    have la: "(2::int) ^ nat (bitlen a - 1) \<le> a" using bitlen_bounds [OF a] by simp
    have lb: "b < (2::int) ^ nat (bitlen b)" using bitlen_bounds [OF b] by simp
    have pa: "1 \<le> bitlen a" using a by (simp add: bitlen_alt_def)
    have pb: "0 \<le> bitlen b" by (rule bitlen_nonneg)
    have "(2::rat) powi (d - 1) = 2 powi (bitlen a - 1) / 2 powi (bitlen b)"
      by (simp add: d_def power_int_diff)
    also have "\<dots> = 2 ^ nat (bitlen a - 1) / 2 ^ nat (bitlen b)"
      using pa pb by (simp add: power_int_def)
    also have "\<dots> \<le> of_int a / of_int b"
    proof -
      have 1: "(2::rat) ^ nat (bitlen a - 1) \<le> of_int a"
        using la by (metis of_int_le_iff of_int_numeral of_int_power)
      have 2: "(of_int b :: rat) \<le> 2 ^ nat (bitlen b)"
        using lb by (metis less_imp_le of_int_le_iff of_int_numeral of_int_power)
      have 3: "(0::rat) < of_int b" using b by simp
      have 4: "(0::rat) \<le> of_int a" using a by simp
      show ?thesis
        by (rule frac_le [OF 4 1 3 2])
    qed
    finally have "(2::rat) powi (d - 1) \<le> \<bar>x\<bar>" using x by simp
    with False show ?thesis by (simp add: exponent_def ab d_def)
  qed
qed

lemma exponent_upper:
  assumes "x \<noteq> 0"
  shows "\<bar>x\<bar> < 2 powi (exponent x + 1)"
proof -
  obtain a b where ab: "quotient_of \<bar>x\<bar> = (a, b)" by (cases "quotient_of \<bar>x\<bar>")
  then have b: "0 < b" and x: "\<bar>x\<bar> = of_int a / of_int b"
    by (auto dest: quotient_of_denom_pos quotient_of_div)
  from assms have "0 < \<bar>x\<bar>" by simp
  with x b have a: "0 < a" by (simp add: zero_less_divide_iff)
  define d where "d = bitlen a - bitlen b"
  have ua: "a < (2::int) ^ nat (bitlen a)" using bitlen_bounds [OF a] by simp
  have lb: "(2::int) ^ nat (bitlen b - 1) \<le> b" using bitlen_bounds [OF b] by simp
  have pa: "0 \<le> bitlen a" by (rule bitlen_nonneg)
  have pb: "1 \<le> bitlen b" using b by (simp add: bitlen_alt_def)
  have 1: "(of_int a :: rat) < 2 ^ nat (bitlen a)"
    using ua by (metis of_int_less_iff of_int_numeral of_int_power)
  have 2: "(2::rat) ^ nat (bitlen b - 1) \<le> of_int b"
    using lb by (metis of_int_le_iff of_int_numeral of_int_power)
  have "of_int a / of_int b < (2::rat) ^ nat (bitlen a) / 2 ^ nat (bitlen b - 1)"
    using 1 2 a b by (intro frac_less) auto
  also have "\<dots> = 2 powi (bitlen a) / 2 powi (bitlen b - 1)"
    using pa pb by (simp add: power_int_def)
  also have "\<dots> = 2 powi (d + 1)"
  proof -
    have "(2::rat) powi (bitlen a - (bitlen b - 1)) = 2 powi bitlen a / 2 powi (bitlen b - 1)"
      by (rule power_int_diff) simp
    moreover have "bitlen a - (bitlen b - 1) = d + 1" by (simp add: d_def)
    ultimately show ?thesis by (simp only:)
  qed
  finally have u: "\<bar>x\<bar> < 2 powi (d + 1)" using x by simp
  show ?thesis
  proof (cases "2 powi d \<le> \<bar>x\<bar>")
    case True
    with u show ?thesis by (simp add: exponent_def ab d_def)
  next
    case False
    then show ?thesis by (simp add: exponent_def ab d_def)
  qed
qed

lemma fl_significand:
  assumes "x \<noteq> 0"
  shows "fl x * 2 powi (52 - exponent x) = of_int (round_half_even (x * 2 powi (52 - exponent x)))"
    and "2 ^ 52 \<le> \<bar>x * 2 powi (52 - exponent x)\<bar>"
    and "\<bar>x * 2 powi (52 - exponent x)\<bar> < 2 ^ 53"
proof -
  show "fl x * 2 powi (52 - exponent x) = of_int (round_half_even (x * 2 powi (52 - exponent x)))"
    using assms by (simp add: fl_def Let_def)
  have s: "(2::rat) powi (52 - exponent x) = 2 ^ 52 / 2 powi exponent x"
    by (simp add: power_int_diff)
  have p: "(0::rat) < 2 powi exponent x" by simp
  show "2 ^ 52 \<le> \<bar>x * 2 powi (52 - exponent x)\<bar>"
    using exponent_lower [OF assms] p
    by (simp add: abs_mult s pos_le_divide_eq)
  have "\<bar>x\<bar> < 2 * 2 powi exponent x"
    using exponent_upper [OF assms] by (simp add: power_int_add)
  then show "\<bar>x * 2 powi (52 - exponent x)\<bar> < 2 ^ 53"
    using p by (simp add: abs_mult s pos_divide_less_eq)
qed

lemma fl_error: "\<bar>fl x - x\<bar> \<le> \<bar>x\<bar> / 2 ^ 53"
proof (cases "x = 0")
  case True
  then show ?thesis by (simp add: fl_def)
next
  case False
  define s :: rat where "s = 2 powi (52 - exponent x)"
  have s: "0 < s" by (simp add: s_def)
  have "fl x - x = (of_int (round_half_even (x * s)) - x * s) / s"
    using False s by (simp add: fl_def s_def [symmetric] Let_def field_simps)
  then have "\<bar>fl x - x\<bar> = \<bar>of_int (round_half_even (x * s)) - x * s\<bar> / s"
    using s by (simp add: abs_divide)
  also have "\<dots> \<le> (1 / 2) / s"
    using s round_half_even_error [of "x * s"] by (intro divide_right_mono) auto
  also have "\<dots> = 2 powi (exponent x) / 2 ^ 53"
    by (simp add: s_def power_int_diff)
  also have "\<dots> \<le> \<bar>x\<bar> / 2 ^ 53"
    using exponent_lower [OF False] by (simp add: divide_right_mono)
  finally show ?thesis .
qed

lemma fl_bounds:
  assumes "0 \<le> x"
  shows "x * (1 - 1 / 2 ^ 53) \<le> fl x" and "fl x \<le> x * (1 + 1 / 2 ^ 53)"
proof -
  from fl_error [of x] assms have "\<bar>fl x - x\<bar> \<le> x / 2 ^ 53" by simp
  then have "x - x / 2 ^ 53 \<le> fl x" "fl x \<le> x + x / 2 ^ 53" by linarith+
  then show "x * (1 - 1 / 2 ^ 53) \<le> fl x" and "fl x \<le> x * (1 + 1 / 2 ^ 53)"
    by (simp_all add: algebra_simps)
qed

lemma final_quantity_bounds:
  assumes "0 \<le> r"
  shows "r * (1 - 1 / 2 ^ 53)\<^sup>2 \<le> final_quantity r"
    and "final_quantity r \<le> (r + 1 / 100) * (1 + 1 / 2 ^ 53)\<^sup>2"
proof -
  define u :: rat where "u = 1 / 2 ^ 53"
  define y where "y = fl (r * 100)"
  define c where "c = (of_int \<lceil>y\<rceil> :: rat)"
  have u: "0 \<le> u" "0 \<le> 1 - u" by (simp_all add: u_def)
  have f: "final_quantity r = fl (c / 100)"
    by (simp add: final_quantity_def float_mul_def true_div_def y_def c_def)
  from assms have r100: "0 \<le> r * 100" by simp
  have y1: "r * 100 * (1 - u) \<le> y" and y2: "y \<le> r * 100 * (1 + u)"
    unfolding y_def u_def using fl_bounds [OF r100] by simp_all
  have "0 \<le> r * 100 * (1 - u)" using r100 u by simp
  with y1 have y0: "0 \<le> y" by linarith
  have c1: "y \<le> c" and c2: "c \<le> y + 1"
    unfolding c_def by linarith+
  from y0 c1 have c0: "0 \<le> c / 100" by simp
  have f1: "c / 100 * (1 - u) \<le> fl (c / 100)" and f2: "fl (c / 100) \<le> c / 100 * (1 + u)"
    unfolding u_def using fl_bounds [OF c0] by simp_all
  have "r * (1 - u)\<^sup>2 = (r * 100 * (1 - u)) / 100 * (1 - u)"
    by (simp add: power2_eq_square)
  also have "\<dots> \<le> c / 100 * (1 - u)"
    using y1 c1 u by (intro mult_right_mono divide_right_mono) auto
  also note f1
  finally show "r * (1 - 1 / 2 ^ 53)\<^sup>2 \<le> final_quantity r"
    by (simp add: f u_def)
  note f2
  also have "c / 100 * (1 + u) \<le> (r * 100 * (1 + u) + 1) / 100 * (1 + u)"
    using y2 c2 u by (intro mult_right_mono divide_right_mono) auto
  also have "\<dots> = (r * (1 + u) + 1 / 100) * (1 + u)"
    by (simp add: field_simps)
  also have "\<dots> \<le> ((r + 1 / 100) * (1 + u)) * (1 + u)"
    using u by (intro mult_right_mono) (auto simp: algebra_simps)
  finally show "final_quantity r \<le> (r + 1 / 100) * (1 + 1 / 2 ^ 53)\<^sup>2"
    by (simp add: f u_def power2_eq_square)
qed


lemma map_of_get_default: "map_of (get_default p d []) mt = slot p d mt"
  by (simp add: get_default_def slot_def split: option.splits)

lemma slot_update: "slot (AList.update d ms p) d' mt' = (if d' = d then map_of ms mt' else slot p d' mt')"
  by (simp add: slot_def update_conv')

lemma slot_None_if_not_key: "mt \<notin> fst ` set (get_default p d []) \<Longrightarrow> slot p d mt = None"
  by (metis map_of_get_default map_of_eq_None_iff)

lemma slot_set_main:
  "slot (set_main d mt m n p) d' mt' =
     (if d' = d \<and> mt' = mt
      then (if m \<noteq> ''-'' then Some \<lparr>sel_name = Some m, sel_people = Some n, sel_salad = None\<rparr> else None)
      else slot p d' mt')"
  by (auto simp: set_main_def slot_update update_conv' delete_conv' map_of_get_default
      slot_None_if_not_key)

lemma slot_set_salad:
  "slot (set_salad d mt s p) d' mt' =
     (if d' = d \<and> mt' = mt
      then (if s \<noteq> ''-''
            then Some ((case slot p d mt of None \<Rightarrow> empty_selection | Some sel \<Rightarrow> sel)\<lparr>sel_salad := Some s\<rparr>)
            else map_option (\<lambda>sel. sel\<lparr>sel_salad := None\<rparr>) (slot p d mt))
      else slot p d' mt')"
proof -
  have g: "get_default (get_default p d []) mt empty_selection =
             (case slot p d mt of None \<Rightarrow> empty_selection | Some sel \<Rightarrow> sel)"
    by (simp add: get_default_def[of "get_default p d []"] map_of_get_default)
  show ?thesis
  proof (cases "slot p d mt")
    case None
    then show ?thesis
      by (auto simp: set_salad_def Let_def g slot_update update_conv' map_of_get_default)
        (simp_all add: empty_selection_def)
  next
    case (Some sel)
    then show ?thesis
      by (cases sel) (auto simp: set_salad_def Let_def g slot_update update_conv' map_of_get_default)
  qed
qed

lemma slot_update_slot_other:
  "(d', mt') \<noteq> (d, mt) \<Longrightarrow> slot (update_slot d mt m n s p) d' mt' = slot p d' mt'"
  by (auto simp: update_slot_def Let_def slot_set_main slot_set_salad)

lemma plan_inv_update_slot: "plan_inv p \<Longrightarrow> plan_inv (update_slot d mt m n s p)"
  unfolding plan_inv_def update_slot_def Let_def
  by (auto simp: slot_set_main slot_set_salad empty_selection_def split: if_splits option.splits)

lemma plan_inv_new_day: "d \<notin> fst ` set p \<Longrightarrow> plan_inv p \<Longrightarrow> plan_inv (AList.update d [] p)"
  unfolding plan_inv_def by (simp add: slot_update)

lemma plan_inv_rerun_day: "plan_inv p \<Longrightarrow> plan_inv (rerun_day w p d)"
proof -
  have fold: "plan_inv q \<Longrightarrow>
      plan_inv (foldl (\<lambda>q mt. case w d mt of (selected_meal, num_people, selected_salad) \<Rightarrow>
                          update_slot d mt selected_meal num_people selected_salad q) q mts)"
    for q mts
    by (induction mts arbitrary: q) (auto simp: plan_inv_update_slot split: prod.splits)
  assume "plan_inv p"
  then show ?thesis
    unfolding rerun_day_def by (auto intro!: fold plan_inv_new_day)
qed

lemma plan_inv_rerun: "plan_inv p \<Longrightarrow> plan_inv (rerun w p)"
proof -
  have "plan_inv q \<Longrightarrow> plan_inv (foldl (rerun_day w) q ds)" for q ds
    by (induction ds arbitrary: q) (auto simp: plan_inv_rerun_day)
  then show "plan_inv p \<Longrightarrow> plan_inv (rerun w p)"
    by (simp add: rerun_def)
qed

lemma reachable_plan_inv: "reachable p \<Longrightarrow> plan_inv p"
  by (induction rule: reachable.induct) (auto simp: plan_inv_rerun, simp add: plan_inv_def slot_def)

section \<open>Plan state: main and salad are cleared independently\<close>

text \<open>
  The branch of line 221 deletes the whole slot entry, the salad with it; the salad selectbox
  of the same slot, which runs next (lines 224-233), stores the salad again.
\<close>

lemma set_main_clear_drops_slot: "slot (set_main d mt ''-'' n p) d mt = None"
  by (simp add: slot_set_main)

text \<open>
  Claim C1. In a plan built by the script, take a slot whose entry holds both a main and a
  salad. Setting the main selectbox to \<^verbatim>\<open>"-"\<close> (the salad selectbox keeps its value) leaves an
  entry without name and people count and with the same salad. Setting the salad selectbox to
  \<^verbatim>\<open>"-"\<close> (the main widgets keep their values) leaves an entry with the same name and people
  count and without salad.
\<close>

theorem clearing_main_or_salad_keeps_the_other:
  assumes "reachable p" and "slot p d mt = Some sel"
    and "sel_name sel = Some m" and "sel_salad sel = Some s"
  shows "slot (update_slot d mt ''-'' n' s p) d mt =
           Some \<lparr>sel_name = None, sel_people = None, sel_salad = Some s\<rparr> \<and>
         (\<exists>n. sel_people sel = Some n \<and>
            slot (update_slot d mt m n ''-'' p) d mt =
              Some \<lparr>sel_name = Some m, sel_people = Some n, sel_salad = None\<rparr>)"
proof -
  from assms(1) have "plan_inv p" by (rule reachable_plan_inv)
  with assms(2-4) have mt: "mt \<in> {Lunch, Dinner}" and s: "s \<noteq> ''-''" and m: "m \<noteq> ''-''"
    and "sel_people sel \<noteq> None"
    unfolding plan_inv_def by fastforce+
  then obtain n where n: "sel_people sel = Some n" by auto
  have 1: "slot (update_slot d mt ''-'' n' s p) d mt =
           Some \<lparr>sel_name = None, sel_people = None, sel_salad = Some s\<rparr>"
    using mt s by (auto simp: update_slot_def Let_def slot_set_main slot_set_salad empty_selection_def)
  have 2: "slot (update_slot d mt m n ''-'' p) d mt =
              Some \<lparr>sel_name = Some m, sel_people = Some n, sel_salad = None\<rparr>"
    using mt m by (auto simp: update_slot_def Let_def slot_set_main slot_set_salad)
  from 1 2 n show ?thesis by blast
qed

theorem clearing_main_or_salad_keeps_the_other_witness:
  "reachable (rerun example_widgets []) \<and>
   slot (rerun example_widgets []) Monday Lunch =
     Some \<lparr>sel_name = Some ''Pasta'', sel_people = Some 2, sel_salad = Some ''Garden Salad''\<rparr> \<and>
   slot (update_slot Monday Lunch ''-'' 2 ''Garden Salad'' (rerun example_widgets [])) Monday Lunch =
     Some \<lparr>sel_name = None, sel_people = None, sel_salad = Some ''Garden Salad''\<rparr> \<and>
   slot (update_slot Monday Lunch ''Pasta'' 2 ''-'' (rerun example_widgets [])) Monday Lunch =
     Some \<lparr>sel_name = Some ''Pasta'', sel_people = Some 2, sel_salad = None\<rparr>"
proof -
  have r: "reachable (rerun example_widgets [])"
    by (rule reachable.step [OF reachable.initial])
  have s: "slot (rerun example_widgets []) Monday Lunch =
     Some \<lparr>sel_name = Some ''Pasta'', sel_people = Some 2, sel_salad = Some ''Garden Salad''\<rparr>"
    by code_simp
  from clearing_main_or_salad_keeps_the_other [OF r s, of "''Pasta''" "''Garden Salad''" 2] r s
  show ?thesis by simp
qed

section \<open>The aggregation refines its specification\<close>

lemma add_ingredient_accumulate:
  "add_ingredient sf sl ing = accumulate sl (item ing, float_mul (quantity ing) sf, unit ing)"
  by (simp add: add_ingredient_def accumulate_def Let_def)

lemma foldl_add_ingredient:
  "foldl (add_ingredient sf) sl ings =
     foldl accumulate sl (map (\<lambda>i. (item i, float_mul (quantity i) sf, unit i)) ings)"
  by (induction ings arbitrary: sl) (simp_all add: add_ingredient_accumulate)

lemma add_ingredients_to_list_None:
  "get_meal_by_name nm MEALS = None \<Longrightarrow> add_ingredients_to_list MEALS nm n st = Inr st"
  by (simp add: add_ingredients_to_list_def)

lemma add_ingredients_to_list_zero:
  "get_meal_by_name nm MEALS = Some m \<Longrightarrow> portions m = 0 \<Longrightarrow>
     add_ingredients_to_list MEALS nm n st = Inl ZeroDivisionError"
  by (simp add: add_ingredients_to_list_def Let_def)

lemma add_ingredients_to_list_Some:
  "get_meal_by_name nm MEALS = Some m \<Longrightarrow> portions m \<noteq> 0 \<Longrightarrow>
     add_ingredients_to_list MEALS nm n st =
       Inr (st\<lparr>prep_list := prep_list st @ calls_preps [(m, n)],
               shopping_list := foldl accumulate (shopping_list st) (meal_contributions m n)\<rparr>)"
  by (simp add: add_ingredients_to_list_def Let_def foldl_add_ingredient
      meal_contributions_def calls_preps_def)

lemma process_main_cases:
  "(sel_name sel \<noteq> None \<and> sel_people sel = None \<and> process_main MEALS d mt sel st = Inl KeyError) \<or>
   ((\<exists>m n. (m, n) \<in> set (main_calls MEALS sel) \<and> portions m = 0) \<and> (sel_name sel \<noteq> None \<longrightarrow> sel_people sel \<noteq> None) \<and>
      process_main MEALS d mt sel st = Inl ZeroDivisionError) \<or>
   ((sel_name sel \<noteq> None \<longrightarrow> sel_people sel \<noteq> None) \<and> (\<forall>(m, n) \<in> set (main_calls MEALS sel). portions m \<noteq> 0) \<and>
      (\<exists>st'. process_main MEALS d mt sel st = Inr st' \<and>
         step_spec (main_calls MEALS sel) (sel_name sel \<noteq> None) st st'))"
proof (cases "sel_name sel")
  case None
  then show ?thesis
    by (simp add: Let_def process_main_def main_calls_def step_spec_def calls_contributions_def calls_preps_def)
next
  case name: (Some nm)
  show ?thesis
  proof (cases "sel_people sel")
    case None
    with name show ?thesis by (simp add: process_main_def Let_def)
  next
    case people: (Some n)
    show ?thesis
    proof (cases "get_meal_by_name nm MEALS")
      case None
      with name people show ?thesis
        by (simp add: Let_def process_main_def main_calls_def step_spec_def calls_contributions_def calls_preps_def)
    next
      case (Some m)
      show ?thesis
      proof (cases "portions m = 0")
        case True
        with name people Some show ?thesis
          by (simp add: Let_def process_main_def main_calls_def add_ingredients_to_list_zero)
      next
        case False
        with name people Some show ?thesis
          by (simp add: Let_def process_main_def main_calls_def add_ingredients_to_list_Some step_spec_def
              calls_contributions_def)
      qed
    qed
  qed
qed

lemma process_salad_cases:
  "((\<exists>m n. (m, n) \<in> set (salad_calls MEALS sel) \<and> portions m = 0) \<and>
      process_salad MEALS sel st = Inl ZeroDivisionError) \<or>
   ((\<forall>(m, n) \<in> set (salad_calls MEALS sel). portions m \<noteq> 0) \<and>
      (\<exists>st'. process_salad MEALS sel st = Inr st' \<and>
         step_spec (salad_calls MEALS sel) (sel_salad sel \<noteq> None) st st'))"
proof (cases "sel_salad sel")
  case None
  then show ?thesis
    by (simp add: Let_def process_salad_def salad_calls_def step_spec_def calls_contributions_def calls_preps_def)
next
  case salad: (Some nm)
  show ?thesis
  proof (cases "get_meal_by_name nm MEALS")
    case None
    with salad show ?thesis
      by (simp add: Let_def process_salad_def salad_calls_def step_spec_def calls_contributions_def
          calls_preps_def add_ingredients_to_list_None)
  next
    case (Some m)
    show ?thesis
    proof (cases "portions m = 0")
      case True
      with salad Some show ?thesis
        by (simp add: Let_def process_salad_def salad_calls_def add_ingredients_to_list_zero)
    next
      case False
      with salad Some show ?thesis
        by (simp add: Let_def process_salad_def salad_calls_def add_ingredients_to_list_Some step_spec_def
            calls_contributions_def)
    qed
  qed
qed

lemma step_spec_trans:
  "step_spec cs a st st1 \<Longrightarrow> step_spec cs' b st1 st2 \<Longrightarrow> step_spec (cs @ cs') (a \<or> b) st st2"
  by (auto simp: step_spec_def calls_contributions_def calls_preps_def)

lemma process_selection_error:
  assumes "\<not> selection_ok MEALS sel"
  shows "\<exists>e. process_selection MEALS d mt sel st = Inl e"
  using assms process_main_cases [of sel MEALS d mt st]
  apply (elim disjE)
    apply (simp add: process_selection_def)
   apply (simp add: process_selection_def)
  apply (elim conjE exE)
  subgoal for st'
    using process_salad_cases [of MEALS sel st']
    by (auto simp: process_selection_def selection_ok_def selection_calls_def)
  done

lemma process_selection_ok:
  assumes "selection_ok MEALS sel"
  shows "\<exists>st'. process_selection MEALS d mt sel st = Inr st' \<and>
           step_spec (selection_calls MEALS sel) (sel_name sel \<noteq> None \<or> sel_salad sel \<noteq> None) st st'"
proof -
  from assms have ok: "sel_name sel \<noteq> None \<longrightarrow> sel_people sel \<noteq> None"
    "\<forall>(m, n) \<in> set (main_calls MEALS sel). portions m \<noteq> 0"
    "\<forall>(m, n) \<in> set (salad_calls MEALS sel). portions m \<noteq> 0"
    by (auto simp: selection_ok_def selection_calls_def)
  with process_main_cases [of sel MEALS d mt st]
  obtain st1 where 1: "process_main MEALS d mt sel st = Inr st1"
    "step_spec (main_calls MEALS sel) (sel_name sel \<noteq> None) st st1"
    by fastforce
  from ok process_salad_cases [of MEALS sel st1]
  obtain st2 where 2: "process_salad MEALS sel st1 = Inr st2"
    "step_spec (salad_calls MEALS sel) (sel_salad sel \<noteq> None) st1 st2"
    by fastforce
  from 1 2 show ?thesis
    by (auto simp: process_selection_def selection_calls_def intro: step_spec_trans)
qed

lemma plan_selections_simps [simp]:
  "plan_selections [] = []"
  "plan_selections ((d, meals) # p) = map snd meals @ plan_selections p"
  by (simp_all add: plan_selections_def)

lemma step_spec_refl: "step_spec [] False st st"
  by (simp add: step_spec_def calls_contributions_def calls_preps_def)

lemma step_spec_final_plan [simp]:
  "step_spec cs b (st\<lparr>final_plan := x\<rparr>) st' = step_spec cs b st st'"
  by (simp add: step_spec_def)

lemma process_meals_error:
  "\<not> (\<forall>sel \<in> snd ` set meals. selection_ok MEALS sel) \<Longrightarrow>
     \<exists>e. process_meals MEALS d meals st = Inl e"
proof (induction meals arbitrary: st)
  case Nil
  then show ?case by simp
next
  case (Cons a meals)
  obtain mt sel where a: "a = (mt, sel)" by (cases a)
  show ?case
  proof (cases "selection_ok MEALS sel")
    case False
    from process_selection_error [OF this, of d mt st] a show ?thesis by auto
  next
    case True
    from process_selection_ok [OF this, of d mt st]
    obtain st' where "process_selection MEALS d mt sel st = Inr st'" by blast
    moreover from Cons.prems True a have "\<not> (\<forall>sel \<in> snd ` set meals. selection_ok MEALS sel)"
      by auto
    from Cons.IH [OF this, of st'] obtain e where "process_meals MEALS d meals st' = Inl e" ..
    ultimately show ?thesis using a by simp
  qed
qed

lemma process_meals_ok:
  "\<forall>sel \<in> snd ` set meals. selection_ok MEALS sel \<Longrightarrow>
     \<exists>st'. process_meals MEALS d meals st = Inr st' \<and>
       step_spec (concat (map (selection_calls MEALS \<circ> snd) meals))
         (\<exists>sel \<in> snd ` set meals. selected sel) st st'"
proof (induction meals arbitrary: st)
  case Nil
  then show ?case by (simp add: step_spec_refl)
next
  case (Cons a meals)
  obtain mt sel where a: "a = (mt, sel)" by (cases a)
  from Cons.prems a have "selection_ok MEALS sel" by simp
  from process_selection_ok [OF this, of d mt st]
  obtain st1 where 1: "process_selection MEALS d mt sel st = Inr st1"
    "step_spec (selection_calls MEALS sel) (selected sel) st st1"
    by (auto simp: selected_def)
  from Cons.prems have "\<forall>sel \<in> snd ` set meals. selection_ok MEALS sel" by simp
  from Cons.IH [OF this, of st1]
  obtain st2 where 2: "process_meals MEALS d meals st1 = Inr st2"
    "step_spec (concat (map (selection_calls MEALS \<circ> snd) meals))
       (\<exists>sel \<in> snd ` set meals. selected sel) st1 st2"
    by blast
  from step_spec_trans [OF 1(2) 2(2)] 1(1) 2(1) a show ?case by (simp add: comp_def)
qed

lemma process_plan_error:
  "\<not> plan_ok MEALS p \<Longrightarrow> \<exists>e. process_plan MEALS p st = Inl e"
proof (induction p arbitrary: st)
  case Nil
  then show ?case by (simp add: plan_ok_def)
next
  case (Cons a p)
  obtain d meals where a: "a = (d, meals)" by (cases a)
  let ?st = "st\<lparr>final_plan := AList.update d [] (final_plan st)\<rparr>"
  show ?case
  proof (cases "\<forall>sel \<in> snd ` set meals. selection_ok MEALS sel")
    case False
    from process_meals_error [OF this, of d ?st] a show ?thesis by auto
  next
    case True
    from process_meals_ok [OF this, of d ?st]
    obtain st' where "process_meals MEALS d meals ?st = Inr st'" by blast
    moreover from Cons.prems True a have "\<not> plan_ok MEALS p"
      by (auto simp: plan_ok_def)
    from Cons.IH [OF this, of st'] obtain e where "process_plan MEALS p st' = Inl e" ..
    ultimately show ?thesis using a by simp
  qed
qed

lemma process_plan_ok:
  "plan_ok MEALS p \<Longrightarrow>
     \<exists>st'. process_plan MEALS p st = Inr st' \<and>
       step_spec (plan_calls MEALS p) (plan_selected p) st st'"
proof (induction p arbitrary: st)
  case Nil
  then show ?case
    by (simp add: step_spec_refl plan_calls_def plan_selected_def)
next
  case (Cons a p)
  obtain d meals where a: "a = (d, meals)" by (cases a)
  let ?st = "st\<lparr>final_plan := AList.update d [] (final_plan st)\<rparr>"
  from Cons.prems a have "\<forall>sel \<in> snd ` set meals. selection_ok MEALS sel"
    by (auto simp: plan_ok_def)
  from process_meals_ok [OF this, of d ?st]
  obtain st1 where 1: "process_meals MEALS d meals ?st = Inr st1"
    "step_spec (concat (map (selection_calls MEALS \<circ> snd) meals))
       (\<exists>sel \<in> snd ` set meals. selected sel) st st1"
    by auto
  from Cons.prems a have "plan_ok MEALS p"
    by (auto simp: plan_ok_def)
  from Cons.IH [OF this, of st1]
  obtain st2 where 2: "process_plan MEALS p st1 = Inr st2"
    "step_spec (plan_calls MEALS p) (plan_selected p) st1 st2"
    by blast
  have c: "plan_calls MEALS (a # p) =
      concat (map (selection_calls MEALS \<circ> snd) meals) @ plan_calls MEALS p"
    by (simp add: a plan_calls_def comp_def)
  have s: "plan_selected (a # p) \<longleftrightarrow>
      (\<exists>sel \<in> snd ` set meals. selected sel) \<or> plan_selected p"
    by (auto simp: a plan_selected_def)
  from step_spec_trans [OF 1(2) 2(2)] 1(1) 2(1) a show ?case
    unfolding c s by simp
qed

lemma accumulate_eq:
  "accumulate sl (i, q, u) =
     AList.update i (float_add (fst (get_default sl i (0, {}))) q,
                     insert u (snd (get_default sl i (0, {})))) sl"
  by (simp add: accumulate_def split: prod.splits)

lemma accumulate_keys: "fst ` set (accumulate sl c) = insert (fst c) (fst ` set sl)"
  by (cases c) (simp add: accumulate_eq dom_update)

lemma accumulate_distinct: "distinct (map fst sl) \<Longrightarrow> distinct (map fst (accumulate sl c))"
  by (cases c) (simp add: accumulate_eq distinct_update)

lemma map_of_accumulate:
  "map_of (accumulate sl (i, q, u)) x =
     (if x = i then Some (float_add (fst (get_default sl i (0, {}))) q,
                          insert u (snd (get_default sl i (0, {}))))
      else map_of sl x)"
  by (simp add: accumulate_eq update_conv')

lemma get_default_accumulate:
  "get_default (accumulate sl (i, q, u)) x (0, {}) =
     (if x = i then (float_add (fst (get_default sl i (0, {}))) q,
                     insert u (snd (get_default sl i (0, {}))))
      else get_default sl x (0, {}))"
  by (simp add: get_default_def [of "accumulate sl (i, q, u)"] map_of_accumulate)
     (simp add: get_default_def)

lemma foldl_accumulate_keys:
  "fst ` set (foldl accumulate sl cs) = fst ` set sl \<union> fst ` set cs"
  by (induction cs arbitrary: sl) (auto simp: accumulate_keys)

lemma foldl_accumulate_distinct:
  "distinct (map fst sl) \<Longrightarrow> distinct (map fst (foldl accumulate sl cs))"
  by (induction cs arbitrary: sl) (auto simp: accumulate_distinct)

lemma get_default_foldl_accumulate:
  "get_default (foldl accumulate sl cs) x (0, {}) =
     (foldl float_add (fst (get_default sl x (0, {}))) (item_quantities cs x),
      snd (get_default sl x (0, {})) \<union> item_units cs x)"
proof (induction cs arbitrary: sl)
  case Nil
  then show ?case by (simp add: item_quantities_def item_units_def)
next
  case (Cons c cs)
  obtain i q u where c: "c = (i, q, u)" by (cases c)
  show ?case
    by (simp add: c Cons.IH get_default_accumulate item_quantities_def item_units_def)
qed

lemma map_of_foldl_accumulate:
  "map_of (foldl accumulate sl cs) x =
     (if x \<in> fst ` set sl \<union> fst ` set cs
      then Some (foldl float_add (fst (get_default sl x (0, {}))) (item_quantities cs x),
                 snd (get_default sl x (0, {})) \<union> item_units cs x)
      else None)"
proof (cases "x \<in> fst ` set sl \<union> fst ` set cs")
  case True
  then have "x \<in> fst ` set (foldl accumulate sl cs)"
    by (simp add: foldl_accumulate_keys)
  then obtain v where v: "map_of (foldl accumulate sl cs) x = Some v"
    by (metis map_of_eq_None_iff not_Some_eq)
  then have "get_default (foldl accumulate sl cs) x (0, {}) = v"
    by (simp add: get_default_def)
  with v True show ?thesis
    by (simp add: get_default_foldl_accumulate)
next
  case False
  then have "x \<notin> fst ` set (foldl accumulate sl cs)"
    by (simp add: foldl_accumulate_keys)
  with False show ?thesis
    by (simp add: map_of_eq_None_iff)
qed

lemma sort_key_fst_distinct:
  assumes "distinct (map fst sl)"
  shows "sort_key fst sl = map (\<lambda>k. (k, the (map_of sl k))) (sorted_list_of_set (fst ` set sl))"
proof -
  have 1: "map fst (sort_key fst sl) = sorted_list_of_set (fst ` set sl)"
  proof -
    have "mset (map fst (sort_key fst sl)) = mset (map fst sl)"
      by simp
    with assms have "distinct (map fst (sort_key fst sl))"
      by (metis mset_eq_imp_distinct_iff)
    with sorted_sort_key [of fst sl]
    have "sorted_list_of_set (set (map fst (sort_key fst sl))) = map fst (sort_key fst sl)"
      by (rule sorted_list_of_set.idem_if_sorted_distinct)
    then show ?thesis by simp
  qed
  have "\<forall>x \<in> set (sort_key fst sl). x = (fst x, the (map_of sl (fst x)))"
    using assms by (auto)
  then have "map (\<lambda>x. (fst x, the (map_of sl (fst x)))) (sort_key fst sl) = sort_key fst sl"
    by (intro map_idI) simp
  then have "sort_key fst sl = map (\<lambda>k. (k, the (map_of sl k))) (map fst (sort_key fst sl))"
    by (simp add: comp_def)
  with 1 show ?thesis by simp
qed

lemma shopping_df_data_foldl_accumulate:
  "shopping_df_data (foldl accumulate [] cs) = table_of cs"
proof -
  let ?sl = "foldl accumulate [] cs"
  have d: "distinct (map fst ?sl)"
    by (rule foldl_accumulate_distinct) simp
  have k: "fst ` set ?sl = fst ` set cs"
    by (simp add: foldl_accumulate_keys)
  have v: "the (map_of ?sl x) = (raw_sum cs x, item_units cs x)" if "x \<in> fst ` set cs" for x
    using that by (simp add: map_of_foldl_accumulate raw_sum_def get_default_def)
  show ?thesis
    unfolding shopping_df_data_def sort_key_fst_distinct [OF d] k table_of_def
    by (simp add: v)
qed

lemma not_selected_ok: "\<not> selected sel \<Longrightarrow> selection_ok MEALS sel"
  by (simp add: selected_def selection_ok_def selection_calls_def main_calls_def salad_calls_def)

lemma not_plan_selected_ok: "\<not> plan_selected p \<Longrightarrow> plan_ok MEALS p"
  by (auto simp: plan_selected_def plan_ok_def not_selected_ok)

lemma generate_error: "\<not> plan_ok MEALS p \<Longrightarrow> \<exists>e. generate MEALS p = Inl e"
  using process_plan_error [of MEALS p initial_state] by (auto simp: generate_def)

lemma generate_empty: "\<not> plan_selected p \<Longrightarrow> generate MEALS p = Inr EmptyPlanWarning"
  using process_plan_ok [OF not_plan_selected_ok, of p MEALS initial_state]
  by (auto simp: generate_def step_spec_def initial_state_def)

lemma generate_artifacts:
  assumes "plan_ok MEALS p" and "plan_selected p"
  shows "\<exists>tt. generate MEALS p =
           Inr (Artifacts (table_of (contributions MEALS p)) tt
                  (sorted_list_of_set (set (calls_preps (plan_calls MEALS p)))))"
proof -
  from process_plan_ok [OF assms(1), of initial_state]
  obtain st where st: "process_plan MEALS p initial_state = Inr st"
    "step_spec (plan_calls MEALS p) (plan_selected p) initial_state st"
    by blast
  from st(2) assms(2) have "\<not> is_plan_empty st"
    and "shopping_list st = foldl accumulate [] (contributions MEALS p)"
    and "prep_list st = calls_preps (plan_calls MEALS p)"
    by (simp_all add: step_spec_def initial_state_def contributions_def)
  with st(1) show ?thesis
    by (simp add: generate_def shopping_df_data_foldl_accumulate)
qed

lemma generate_Artifacts_iff:
  "(\<exists>tt. generate MEALS p = Inr (Artifacts T tt preps)) \<longleftrightarrow>
     plan_ok MEALS p \<and> plan_selected p \<and> T = table_of (contributions MEALS p) \<and>
     preps = sorted_list_of_set (set (calls_preps (plan_calls MEALS p)))"
proof (cases "plan_ok MEALS p")
  case False
  from generate_error [OF this] show ?thesis using False by auto
next
  case True
  show ?thesis
  proof (cases "plan_selected p")
    case False
    from generate_empty [OF this, of MEALS] show ?thesis using False by auto
  next
    case sel: True
    from generate_artifacts [OF True sel] show ?thesis using True sel by auto
  qed
qed

section \<open>The empty-plan warning\<close>




section \<open>The text of the download\<close>





lemma generate_table:
  assumes "generate MEALS p = Inr (Artifacts T tt preps)"
  shows "T = table_of (contributions MEALS p)"
  using assms generate_Artifacts_iff [of MEALS p T preps] by blast

lemma table_of_keys: "map fst (table_of cs) = sorted_list_of_set (fst ` set cs)"
  by (simp add: table_of_def comp_def)

section \<open>One row per item\<close>

text \<open>
  Claim C7. An item name, however many selected meals list it, has exactly one row in the
  table. The quantity of the row is the final quantity of the float sum, in processing order,
  of all the scaled quantities contributed under that name; the unit string is the
  comma-joined sorted list of the set of units contributed under that name.
\<close>

theorem one_row_per_item:
  assumes "generate MEALS p = Inr (Artifacts T tt preps)"
  shows "distinct (map fst T) \<and>
         set (map fst T) = fst ` set (contributions MEALS p) \<and>
         (\<forall>(x, q, us) \<in> set T.
            q = final_quantity (foldl float_add 0 (item_quantities (contributions MEALS p) x)) \<and>
            us = join '', '' (sorted_list_of_set (item_units (contributions MEALS p) x)))"
proof -
  let ?cs = "contributions MEALS p"
  from assms have T: "T = table_of ?cs" by (rule generate_table)
  have "distinct (map fst T)"
    unfolding T table_of_keys by simp
  moreover have "set (map fst T) = fst ` set ?cs"
    unfolding T table_of_keys by simp
  moreover have "\<forall>(x, q, us) \<in> set T.
            q = final_quantity (foldl float_add 0 (item_quantities ?cs x)) \<and>
            us = join '', '' (sorted_list_of_set (item_units ?cs x))"
    unfolding T table_of_def by (auto simp: raw_sum_def units_str_def)
  ultimately show ?thesis by simp
qed

lemma tomato_plan_table:
  "generate demo_catalog tomato_plan =
     Inr (Artifacts [(''onion'', 1 / 2, ''piece''), (''tomato'', 253, ''g, piece'')]
            [(Monday, [(Lunch, ''Tomato Soup'', ''Medium'')])] [''Tomato Soup''])"
  by code_simp

theorem one_row_per_item_witness:
  "generate demo_catalog tomato_plan =
     Inr (Artifacts [(''onion'', 1 / 2, ''piece''), (''tomato'', 253, ''g, piece'')]
            [(Monday, [(Lunch, ''Tomato Soup'', ''Medium'')])] [''Tomato Soup'']) \<and>
   distinct (map fst [(''onion'', 1 / 2 :: rat, ''piece''), (''tomato'', 253, ''g, piece'')]) \<and>
   253 = final_quantity
     (foldl float_add 0 (item_quantities (contributions demo_catalog tomato_plan) ''tomato'')) \<and>
   ''g, piece'' =
     join '', '' (sorted_list_of_set (item_units (contributions demo_catalog tomato_plan) ''tomato''))"
proof -
  note t = one_row_per_item [OF tomato_plan_table]
  from t have 1: "distinct (map fst [(''onion'', 1 / 2 :: rat, ''piece''), (''tomato'', 253, ''g, piece'')])"
    by (rule conjunct1)
  have "case (''tomato'', 253, ''g, piece'') of (x, q, us) \<Rightarrow>
            q = final_quantity (foldl float_add 0 (item_quantities (contributions demo_catalog tomato_plan) x)) \<and>
            us = join '', '' (sorted_list_of_set (item_units (contributions demo_catalog tomato_plan) x))"
    by (rule t [THEN conjunct2, THEN conjunct2, THEN bspec]) simp
  then have 2: "253 = final_quantity
     (foldl float_add 0 (item_quantities (contributions demo_catalog tomato_plan) ''tomato'')) \<and>
   ''g, piece'' =
     join '', '' (sorted_list_of_set (item_units (contributions demo_catalog tomato_plan) ''tomato''))"
    by (simp only: prod.case)
  from tomato_plan_table 1 2 show ?thesis by (intro conjI) (rule TrueI | erule conjunct1 | erule conjunct2 | assumption)+
qed

section \<open>The final quantity\<close>

lemma rice_plan_table:
  "generate demo_catalog rice_plan =
     Inr (Artifacts [(''rice'', 3152519739159347 / 2251799813685248, ''cup'')]
            [(Monday, [(Dinner, ''Rice Pot'', ''Easy'')])] [])"
  by code_simp

text \<open>
  Claim C5 as stated fails in the arithmetic of the program. One person and the Rice Pot
  (7 cups for 5 portions): the running total is \<^verbatim>\<open>7 * (1 / 5) = 1.4000000000000001\<close>, its
  hundredfold rounds to \<^verbatim>\<open>140.0\<close>, and the reported \<^verbatim>\<open>140 / 100 = 1.4\<close> is below the running
  total.
\<close>

theorem final_quantity_below_raw_sum:
  "process_plan demo_catalog rice_plan initial_state =
     Inr \<lparr>shopping_list = [(''rice'', 6305039478318695 / 4503599627370496, {''cup''})],
          final_plan = [(Monday, [(Dinner, ''Rice Pot'', ''Easy'')])],
          prep_list = [], is_plan_empty = False\<rparr> \<and>
   generate demo_catalog rice_plan =
     Inr (Artifacts [(''rice'', 3152519739159347 / 2251799813685248, ''cup'')]
            [(Monday, [(Dinner, ''Rice Pot'', ''Easy'')])] []) \<and>
   (3152519739159347 / 2251799813685248 :: rat) < 6305039478318695 / 4503599627370496"
  by code_simp

text \<open>
  Claim C5, as the code has it. The quantity of a row is \<^verbatim>\<open>math.ceil(raw * 100) / 100\<close>
  in binary64 arithmetic, computed once from the raw sum of all the scaled quantities that
  the plan contributes under the item; nothing is rounded to hundredths during the
  accumulation. For a raw sum that is not negative the reported quantity is at least the raw
  sum times \<open>(1 - 1 / 2^53)\<^sup>2\<close> and at most the raw sum plus 0.01, times \<open>(1 + 1 / 2^53)\<^sup>2\<close>:
  the two bounds of the claim hold up to the rounding of the two float operations.
\<close>

theorem final_quantity_once_after_accumulation:
  assumes "generate MEALS p = Inr (Artifacts T tt preps)" and "(x, q, us) \<in> set T"
  shows "q = true_div (of_int \<lceil>float_mul (raw_sum (contributions MEALS p) x) 100\<rceil>) 100 \<and>
         (0 \<le> raw_sum (contributions MEALS p) x \<longrightarrow>
            raw_sum (contributions MEALS p) x * (1 - 1 / 2 ^ 53)\<^sup>2 \<le> q \<and>
            q \<le> (raw_sum (contributions MEALS p) x + 1 / 100) * (1 + 1 / 2 ^ 53)\<^sup>2)"
proof -
  from assms(1) have "T = table_of (contributions MEALS p)" by (rule generate_table)
  with assms(2) have "q = final_quantity (raw_sum (contributions MEALS p) x)"
    by (auto simp: table_of_def)
  then show ?thesis
    using final_quantity_bounds [of "raw_sum (contributions MEALS p) x"]
    by (simp add: final_quantity_def)
qed

theorem final_quantity_once_after_accumulation_witness:
  "generate demo_catalog rice_plan =
     Inr (Artifacts [(''rice'', 3152519739159347 / 2251799813685248, ''cup'')]
            [(Monday, [(Dinner, ''Rice Pot'', ''Easy'')])] []) \<and>
   raw_sum (contributions demo_catalog rice_plan) ''rice'' = 6305039478318695 / 4503599627370496 \<and>
   6305039478318695 / 4503599627370496 * (1 - 1 / 2 ^ 53)\<^sup>2
     \<le> (3152519739159347 / 2251799813685248 :: rat) \<and>
   (3152519739159347 / 2251799813685248 :: rat)
     \<le> (6305039478318695 / 4503599627370496 + 1 / 100) * (1 + 1 / 2 ^ 53)\<^sup>2"
proof -
  have r: "raw_sum (contributions demo_catalog rice_plan) ''rice'' = 6305039478318695 / 4503599627370496"
    by code_simp
  have m: "(''rice'', 3152519739159347 / 2251799813685248, ''cup'')
             \<in> set [(''rice'', 3152519739159347 / 2251799813685248 :: rat, ''cup'')]"
    by simp
  from final_quantity_once_after_accumulation [OF rice_plan_table m] r rice_plan_table
  show ?thesis by simp
qed

section \<open>Order of the table and order of the plan\<close>

lemma porridge_plans_rerun:
  "porridge_plan_at_once = rerun (porridge_widgets 3) []"
  "porridge_plan_backwards =
     rerun (porridge_widgets 3) (rerun (porridge_widgets 2) (rerun (porridge_widgets 1) []))"
  by code_simp+

lemma porridge_plans_reachable:
  "reachable porridge_plan_at_once" "reachable porridge_plan_backwards"
  unfolding porridge_plans_rerun by (intro reachable.intros)+

lemma porridge_table_at_once:
  "generate demo_catalog porridge_plan_at_once =
     Inr (Artifacts [(''salt'', fl (61 / 100), ''tsp'')]
            [(Sunday, [(Breakfast, ''Porridge'', ''Easy''), (Lunch, ''Porridge'', ''Easy''),
                       (Dinner, ''Porridge'', ''Easy'')]),
             (Monday, []), (Tuesday, []), (Wednesday, []), (Thursday, []), (Friday, []),
             (Saturday, [])]
            [''Porridge''])"
  by code_simp

lemma porridge_table_backwards:
  "generate demo_catalog porridge_plan_backwards =
     Inr (Artifacts [(''salt'', fl (60 / 100), ''tsp'')]
            [(Sunday, [(Dinner, ''Porridge'', ''Easy''), (Lunch, ''Porridge'', ''Easy''),
                       (Breakfast, ''Porridge'', ''Easy'')]),
             (Monday, []), (Tuesday, []), (Wednesday, []), (Thursday, []), (Friday, []),
             (Saturday, [])]
            [''Porridge''])"
  by code_simp

text \<open>
  Claim C6 as stated fails for the quantities. Both plans are reachable by the script and
  hold the same three entries. Stored Breakfast, Lunch, Dinner the running total of salt is
  \<^verbatim>\<open>0.1 + 0.2 + 0.3 = 0.6000000000000001\<close> and the table shows \<^verbatim>\<open>0.61\<close>; stored Dinner, Lunch,
  Breakfast it is \<^verbatim>\<open>0.3 + 0.2 + 0.1 = 0.6\<close> and the table shows \<^verbatim>\<open>0.6\<close>.
\<close>

theorem table_quantity_depends_on_plan_order:
  "reachable porridge_plan_at_once \<and> reachable porridge_plan_backwards \<and>
   mset (plan_selections porridge_plan_at_once) = mset (plan_selections porridge_plan_backwards) \<and>
   table (projr (generate demo_catalog porridge_plan_at_once)) = [(''salt'', fl (61 / 100), ''tsp'')] \<and>
   table (projr (generate demo_catalog porridge_plan_backwards)) = [(''salt'', fl (60 / 100), ''tsp'')] \<and>
   fl (61 / 100) \<noteq> fl (60 / 100)"
proof -
  have "mset (plan_selections porridge_plan_at_once) = mset (plan_selections porridge_plan_backwards)"
    by (simp add: porridge_plan_at_once_def porridge_plan_backwards_def)
  moreover have "fl (61 / 100) \<noteq> fl (60 / 100)"
    by code_simp
  ultimately show ?thesis
    using porridge_plans_reachable
    by (simp add: porridge_table_at_once porridge_table_backwards)
qed

lemma set_plan_calls:
  "set (plan_calls MEALS p) = (\<Union>sel \<in> set (plan_selections p). set (selection_calls MEALS sel))"
  by (simp add: plan_calls_def)

lemma set_calls_contributions:
  "set (calls_contributions cs) = (\<Union>(m, n) \<in> set cs. set (meal_contributions m n))"
  by (auto simp: calls_contributions_def)

lemma same_selections_calls:
  "set (plan_selections p') = set (plan_selections p) \<Longrightarrow>
     set (plan_calls MEALS p') = set (plan_calls MEALS p)"
  by (simp add: set_plan_calls)

lemma same_selections_contributions:
  "set (plan_selections p') = set (plan_selections p) \<Longrightarrow>
     set (contributions MEALS p') = set (contributions MEALS p)"
  using same_selections_calls [of p' p MEALS]
  by (simp add: contributions_def set_calls_contributions)

lemma same_selections_preps:
  "set (plan_selections p') = set (plan_selections p) \<Longrightarrow>
     set (calls_preps (plan_calls MEALS p')) = set (calls_preps (plan_calls MEALS p))"
  using same_selections_calls [of p' p MEALS]
  by (simp add: calls_preps_def)

lemma item_units_set: "set cs' = set cs \<Longrightarrow> item_units cs' x = item_units cs x"
  by (simp add: item_units_def)

lemma table_of_items_units:
  "map (\<lambda>(x, q, us). (x, us)) (table_of cs) =
     map (\<lambda>x. (x, units_str (item_units cs x))) (sorted_list_of_set (fst ` set cs))"
  by (simp add: table_of_def comp_def)

lemma table_of_strict_sorted: "sorted_wrt (<) (map fst (table_of cs))"
  by (simp add: table_of_keys)

lemma mset_concat_map:
  "mset xs = mset ys \<Longrightarrow> mset (concat (map f xs)) = mset (concat (map f ys))"
proof -
  assume a: "mset xs = mset ys"
  have "mset (concat (map f zs)) = sum_mset (image_mset (mset \<circ> f) (mset zs))" for zs
    by (induction zs) simp_all
  with a show ?thesis by simp
qed

lemma same_entries_contributions:
  assumes "mset (plan_selections p') = mset (plan_selections p)"
  shows "mset (contributions MEALS p') = mset (contributions MEALS p)"
proof -
  from assms have "mset (plan_calls MEALS p') = mset (plan_calls MEALS p)"
    unfolding plan_calls_def by (rule mset_concat_map)
  then show ?thesis
    unfolding contributions_def calls_contributions_def by (rule mset_concat_map)
qed

lemma mset_item_quantities:
  "mset cs' = mset cs \<Longrightarrow> mset (item_quantities cs' x) = mset (item_quantities cs x)"
  by (simp add: item_quantities_def)

text \<open>
  Claim C6, as the code has it. The rows of the table are strictly sorted by item name, in
  the order of the code points of the characters. A plan that holds the same selections in
  another order gives a table with the same item names and the same unit strings, row by
  row, and the same list of meals to prepare. The quantity of a row is the final quantity of
  a float sum of the same scaled quantities, added in the order of the new plan: it is not
  fixed by the entries alone.
\<close>

theorem table_sorted_and_items_units_independent_of_order:
  assumes "generate MEALS p = Inr (Artifacts T tt preps)"
    and "mset (plan_selections p') = mset (plan_selections p)"
  shows "sorted_wrt (<) (map fst T) \<and>
         (\<exists>T' tt'. generate MEALS p' = Inr (Artifacts T' tt' preps) \<and>
            map (\<lambda>(x, q, us). (x, us)) T' = map (\<lambda>(x, q, us). (x, us)) T \<and>
            (\<forall>(x, q, us) \<in> set T'.
               q = final_quantity (foldl float_add 0 (item_quantities (contributions MEALS p') x)) \<and>
               mset (item_quantities (contributions MEALS p') x) =
                 mset (item_quantities (contributions MEALS p) x)))"
proof -
  from assms(2) have same: "set (plan_selections p') = set (plan_selections p)"
    by (rule mset_eq_setD)
  from assms(1) have "\<exists>tt. generate MEALS p = Inr (Artifacts T tt preps)" by blast
  then have ok: "plan_ok MEALS p" and sel: "plan_selected p"
    and T: "T = table_of (contributions MEALS p)"
    and preps: "preps = sorted_list_of_set (set (calls_preps (plan_calls MEALS p)))"
    unfolding generate_Artifacts_iff by simp_all
  from ok same have ok': "plan_ok MEALS p'" by (simp add: plan_ok_def)
  from sel same have sel': "plan_selected p'" by (simp add: plan_selected_def)
  from generate_artifacts [OF ok' sel'] obtain tt' where
    g': "generate MEALS p' =
           Inr (Artifacts (table_of (contributions MEALS p')) tt'
                  (sorted_list_of_set (set (calls_preps (plan_calls MEALS p')))))"
    by blast
  have c: "set (contributions MEALS p') = set (contributions MEALS p)"
    using same by (rule same_selections_contributions)
  have 1: "map (\<lambda>(x, q, us). (x, us)) (table_of (contributions MEALS p')) =
        map (\<lambda>(x, q, us). (x, us)) T"
    unfolding T table_of_items_units by (simp only: c item_units_set [OF c])
  have 2: "sorted_list_of_set (set (calls_preps (plan_calls MEALS p'))) = preps"
    unfolding preps by (simp only: same_selections_preps [OF same])
  have 3: "sorted_wrt (<) (map fst T)"
    unfolding T by (rule table_of_strict_sorted)
  have 4: "\<forall>(x, q, us) \<in> set (table_of (contributions MEALS p')).
               q = final_quantity (foldl float_add 0 (item_quantities (contributions MEALS p') x)) \<and>
               mset (item_quantities (contributions MEALS p') x) =
                 mset (item_quantities (contributions MEALS p) x)"
    using mset_item_quantities [OF same_entries_contributions [OF assms(2), of MEALS]]
    by (auto simp: table_of_def raw_sum_def)
  from g' 2 have "generate MEALS p' = Inr (Artifacts (table_of (contributions MEALS p')) tt' preps)"
    by simp
  with 1 4 have "\<exists>T' tt'. generate MEALS p' = Inr (Artifacts T' tt' preps) \<and>
            map (\<lambda>(x, q, us). (x, us)) T' = map (\<lambda>(x, q, us). (x, us)) T \<and>
            (\<forall>(x, q, us) \<in> set T'.
               q = final_quantity (foldl float_add 0 (item_quantities (contributions MEALS p') x)) \<and>
               mset (item_quantities (contributions MEALS p') x) =
                 mset (item_quantities (contributions MEALS p) x))"
    by blast
  with 3 show ?thesis ..
qed

lemma porridge_same_entries:
  "mset (plan_selections porridge_plan_backwards) = mset (plan_selections porridge_plan_at_once)"
  by (simp add: porridge_plan_at_once_def porridge_plan_backwards_def)

theorem table_sorted_and_items_units_independent_of_order_witness:
  "sorted_wrt (<) (map fst [(''salt'', fl (61 / 100), ''tsp'')]) \<and>
   (\<exists>T' tt'. generate demo_catalog porridge_plan_backwards = Inr (Artifacts T' tt' [''Porridge'']) \<and>
      map (\<lambda>(x, q, us). (x, us)) T' = [(''salt'', ''tsp'')])"
  using table_sorted_and_items_units_independent_of_order
    [OF porridge_table_at_once porridge_same_entries]
  by auto

section \<open>Stored selections have a people count with every name\<close>

lemma in_update: "x \<in> set (AList.update k v al) \<Longrightarrow> x = (k, v) \<or> x \<in> set al"
  by (induction al) (auto split: if_splits)

lemma in_delete: "x \<in> set (AList.delete k al) \<Longrightarrow> x \<in> set al"
  by (simp add: AList.delete_eq)

lemma in_get_default:
  "x \<in> set (get_default p d []) \<Longrightarrow> \<exists>meals. (d, meals) \<in> set p \<and> x \<in> set meals"
proof (cases "map_of p d")
  case None
  then show "x \<in> set (get_default p d []) \<Longrightarrow> ?thesis" by (simp add: get_default_def)
next
  case (Some meals)
  then have "(d, meals) \<in> set p" by (rule map_of_SomeD)
  with Some show "x \<in> set (get_default p d []) \<Longrightarrow> ?thesis"
    by (auto simp: get_default_def)
qed

lemma get_default_selection:
  "get_default meals mt empty_selection = empty_selection \<or>
   (mt, get_default meals mt empty_selection) \<in> set meals"
  by (auto simp: get_default_def split: option.splits dest: map_of_SomeD)

lemma people_with_name_iff:
  "people_with_name p \<longleftrightarrow>
     (\<forall>d meals mt sel. (d, meals) \<in> set p \<longrightarrow> (mt, sel) \<in> set meals \<longrightarrow>
        sel_name sel \<noteq> None \<longrightarrow> sel_people sel \<noteq> None)"
  by (fastforce simp: people_with_name_def plan_selections_def)

lemma people_with_name_set_main:
  assumes "people_with_name p"
  shows "people_with_name (set_main d mt m n p)"
  unfolding people_with_name_iff
proof (intro allI impI)
  fix d' meals' mt' sel
  assume a: "(d', meals') \<in> set (set_main d mt m n p)" "(mt', sel) \<in> set meals'"
    and nm: "sel_name sel \<noteq> None"
  from assms have old: "\<And>d meals mt sel. (d, meals) \<in> set p \<Longrightarrow> (mt, sel) \<in> set meals \<Longrightarrow>
        sel_name sel \<noteq> None \<Longrightarrow> sel_people sel \<noteq> None"
    unfolding people_with_name_iff by blast
  from a(1) consider
      "(d', meals') \<in> set p"
    | "meals' = AList.update mt \<lparr>sel_name = Some m, sel_people = Some n, sel_salad = None\<rparr>
                  (get_default p d [])"
    | "meals' = AList.delete mt (get_default p d [])"
    by (auto simp: set_main_def split: if_splits dest!: in_update)
  then show "sel_people sel \<noteq> None"
  proof cases
    case 1
    with a(2) nm old show ?thesis by blast
  next
    case 2
    with a(2) have "sel = \<lparr>sel_name = Some m, sel_people = Some n, sel_salad = None\<rparr> \<or>
        (mt', sel) \<in> set (get_default p d [])"
      by (auto dest!: in_update)
    then show ?thesis using nm old by (auto dest!: in_get_default)
  next
    case 3
    with a(2) have "(mt', sel) \<in> set (get_default p d [])"
      by (auto dest!: in_delete)
    then show ?thesis using nm old by (auto dest!: in_get_default)
  qed
qed

lemma people_with_name_set_salad:
  assumes "people_with_name p"
  shows "people_with_name (set_salad d mt s p)"
  unfolding people_with_name_iff
proof (intro allI impI)
  fix d' meals' mt' sel
  assume a: "(d', meals') \<in> set (set_salad d mt s p)" "(mt', sel) \<in> set meals'"
    and nm: "sel_name sel \<noteq> None"
  from assms have old: "\<And>d meals mt sel. (d, meals) \<in> set p \<Longrightarrow> (mt, sel) \<in> set meals \<Longrightarrow>
        sel_name sel \<noteq> None \<Longrightarrow> sel_people sel \<noteq> None"
    unfolding people_with_name_iff by blast
  define meals where "meals = get_default p d []"
  define sel0 where "sel0 = get_default meals mt empty_selection"
  have sel0: "sel_name sel0 \<noteq> None \<Longrightarrow> sel_people sel0 \<noteq> None"
    using get_default_selection [of meals mt] old
    unfolding sel0_def meals_def by (auto simp: empty_selection_def dest!: in_get_default)
  from a(1) consider
      "(d', meals') \<in> set p"
    | x where "meals' = AList.update mt (sel0\<lparr>sel_salad := x\<rparr>) meals"
    unfolding set_salad_def Let_def meals_def [symmetric] sel0_def [symmetric]
    by (auto split: if_splits dest!: in_update)
  then show "sel_people sel \<noteq> None"
  proof cases
    case 1
    with a(2) nm old show ?thesis by blast
  next
    case 2
    with a(2) have "sel = sel0\<lparr>sel_salad := x\<rparr> \<or> (mt', sel) \<in> set meals"
      by (auto dest!: in_update)
    then show ?thesis using nm old sel0 unfolding meals_def by (auto dest!: in_get_default)
  qed
qed

lemma people_with_name_update_slot:
  "people_with_name p \<Longrightarrow> people_with_name (update_slot d mt m n s p)"
  by (simp add: update_slot_def Let_def people_with_name_set_main people_with_name_set_salad)

lemma people_with_name_new_day:
  "people_with_name p \<Longrightarrow> people_with_name (AList.update d [] p)"
  unfolding people_with_name_iff by (fastforce dest!: in_update)

lemma people_with_name_rerun_day: "people_with_name p \<Longrightarrow> people_with_name (rerun_day w p d)"
proof -
  have fold: "people_with_name q \<Longrightarrow>
      people_with_name (foldl (\<lambda>q mt. case w d mt of (selected_meal, num_people, selected_salad) \<Rightarrow>
                          update_slot d mt selected_meal num_people selected_salad q) q mts)"
    for q mts
    by (induction mts arbitrary: q) (auto simp: people_with_name_update_slot split: prod.splits)
  assume "people_with_name p"
  then show ?thesis
    unfolding rerun_day_def by (auto intro!: fold people_with_name_new_day)
qed

lemma people_with_name_rerun: "people_with_name p \<Longrightarrow> people_with_name (rerun w p)"
proof -
  have "people_with_name q \<Longrightarrow> people_with_name (foldl (rerun_day w) q ds)" for q ds
    by (induction ds arbitrary: q) (auto simp: people_with_name_rerun_day)
  then show "people_with_name p \<Longrightarrow> people_with_name (rerun w p)"
    by (simp add: rerun_def)
qed

lemma reachable_people_with_name: "reachable p \<Longrightarrow> people_with_name p"
proof (induction rule: reachable.induct)
  case initial
  show ?case by (simp add: people_with_name_def)
next
  case (step p w)
  then show ?case by (simp add: people_with_name_rerun)
qed

section \<open>References that the catalog does not resolve\<close>

lemma get_meal_by_name_None_iff: "get_meal_by_name nm MEALS = None \<longleftrightarrow> nm \<notin> name ` set MEALS"
  by (induction MEALS) auto

lemma plan_selections_drop_unknown:
  "plan_selections (drop_unknown MEALS p) = map (drop_unknown_selection MEALS) (plan_selections p)"
  by (induction p) (auto simp: drop_unknown_def plan_selections_def)

lemma selection_calls_drop_unknown:
  "selection_calls MEALS (drop_unknown_selection MEALS sel) = selection_calls MEALS sel"
  by (simp add: selection_calls_def main_calls_def salad_calls_def drop_unknown_selection_def
      drop_unknown_name_def split: option.splits)

lemma plan_calls_drop_unknown: "plan_calls MEALS (drop_unknown MEALS p) = plan_calls MEALS p"
  by (simp add: plan_calls_def plan_selections_drop_unknown comp_def selection_calls_drop_unknown)

lemma selection_ok_drop_unknown:
  assumes "selection_ok MEALS (drop_unknown_selection MEALS sel)"
    and "sel_name sel \<noteq> None \<longrightarrow> sel_people sel \<noteq> None"
  shows "selection_ok MEALS sel"
  using assms unfolding selection_ok_def selection_calls_drop_unknown by simp

lemma plan_ok_drop_unknown:
  assumes "plan_ok MEALS (drop_unknown MEALS p)" and "people_with_name p"
  shows "plan_ok MEALS p"
  unfolding plan_ok_def
proof
  fix sel
  assume sel: "sel \<in> set (plan_selections p)"
  with assms(1) have "selection_ok MEALS (drop_unknown_selection MEALS sel)"
    by (simp add: plan_ok_def plan_selections_drop_unknown)
  moreover from sel assms(2) have "sel_name sel \<noteq> None \<longrightarrow> sel_people sel \<noteq> None"
    by (simp add: people_with_name_def)
  ultimately show "selection_ok MEALS sel"
    by (rule selection_ok_drop_unknown)
qed

lemma drop_unknown_same_lists:
  assumes "people_with_name p"
    and "process_plan MEALS (drop_unknown MEALS p) initial_state = Inr st2"
  shows "\<exists>st1. process_plan MEALS p initial_state = Inr st1 \<and>
           shopping_list st1 = shopping_list st2 \<and> prep_list st1 = prep_list st2"
proof -
  have ok2: "plan_ok MEALS (drop_unknown MEALS p)"
    using process_plan_error [of MEALS "drop_unknown MEALS p" initial_state] assms(2) by auto
  from process_plan_ok [OF this, of initial_state] assms(2)
  have 2: "step_spec (plan_calls MEALS p) (plan_selected (drop_unknown MEALS p)) initial_state st2"
    by (auto simp: plan_calls_drop_unknown)
  from ok2 assms(1) have "plan_ok MEALS p" by (rule plan_ok_drop_unknown)
  from process_plan_ok [OF this, of initial_state] obtain st1 where
    1: "process_plan MEALS p initial_state = Inr st1"
       "step_spec (plan_calls MEALS p) (plan_selected p) initial_state st1"
    by blast
  from 1(2) 2 have "shopping_list st1 = shopping_list st2 \<and> prep_list st1 = prep_list st2"
    by (simp add: step_spec_def)
  with 1(1) show ?thesis by blast
qed

text \<open>
  Claim C8. A name that no record of the catalog has is not found, and
  \<^verbatim>\<open>add_ingredients_to_list\<close> returns for it without an error and without any change of the
  shopping list, the units or the prep list. In a plan built by the script such references
  do not disturb the rest: whenever the plan without them aggregates, the plan with them
  aggregates too, to the same shopping list and the same prep list.
\<close>

theorem unknown_meal_is_skipped:
  assumes "nm \<notin> name ` set MEALS"
  shows "get_meal_by_name nm MEALS = None \<and>
         add_ingredients_to_list MEALS nm n st = Inr st \<and>
         (reachable p \<longrightarrow>
            (\<forall>st2. process_plan MEALS (drop_unknown MEALS p) initial_state = Inr st2 \<longrightarrow>
               (\<exists>st1. process_plan MEALS p initial_state = Inr st1 \<and>
                  shopping_list st1 = shopping_list st2 \<and> prep_list st1 = prep_list st2)))"
proof -
  from assms have n: "get_meal_by_name nm MEALS = None"
    by (simp add: get_meal_by_name_None_iff)
  then have "add_ingredients_to_list MEALS nm n st = Inr st"
    by (rule add_ingredients_to_list_None)
  with n show ?thesis
    using drop_unknown_same_lists [of p MEALS] reachable_people_with_name [of p] by blast
qed

lemma stale_plan_dropped:
  "process_plan example_catalog (drop_unknown example_catalog (rerun stale_widgets [])) initial_state =
     Inr \<lparr>shopping_list = [(''oats'', 300, {''g''}), (''lettuce'', 2, {''head''})],
          final_plan = [(Sunday, [(Breakfast, ''Oat Bowl'', ''Easy'')]), (Monday, []), (Tuesday, []),
                        (Wednesday, []), (Thursday, []), (Friday, []), (Saturday, [])],
          prep_list = [''Oat Bowl''], is_plan_empty = False\<rparr>"
  by code_simp

theorem unknown_meal_is_skipped_witness:
  "''Ghost Stew'' \<notin> name ` set example_catalog \<and>
   get_meal_by_name ''Ghost Stew'' example_catalog = None \<and>
   slot (rerun stale_widgets []) Monday Lunch =
     Some \<lparr>sel_name = Some ''Ghost Stew'', sel_people = Some 2, sel_salad = Some ''Garden Salad''\<rparr> \<and>
   (\<exists>st1. process_plan example_catalog (rerun stale_widgets []) initial_state = Inr st1 \<and>
      shopping_list st1 = [(''oats'', 300, {''g''}), (''lettuce'', 2, {''head''})] \<and>
      prep_list st1 = [''Oat Bowl''])"
proof -
  have a: "''Ghost Stew'' \<notin> name ` set example_catalog"
    by (simp add: example_catalog_def oat_bowl_def garden_salad_def)
  have r: "reachable (rerun stale_widgets [])"
    by (rule reachable.step [OF reachable.initial])
  have s: "slot (rerun stale_widgets []) Monday Lunch =
     Some \<lparr>sel_name = Some ''Ghost Stew'', sel_people = Some 2, sel_salad = Some ''Garden Salad''\<rparr>"
    by code_simp
  from unknown_meal_is_skipped [OF a, of _ _ "rerun stale_widgets []"] r stale_plan_dropped
  have "get_meal_by_name ''Ghost Stew'' example_catalog = None"
    and "\<exists>st1. process_plan example_catalog (rerun stale_widgets []) initial_state = Inr st1 \<and>
      shopping_list st1 = [(''oats'', 300, {''g''}), (''lettuce'', 2, {''head''})] \<and>
      prep_list st1 = [''Oat Bowl'']"
    by auto
  with a s show ?thesis by (intro conjI)
qed

section \<open>The people count of a salad\<close>

text \<open>
  Claim C9. For a selection with a salad that the catalog resolves, in a slot as the script
  stores it (a people count exactly when there is a main), the salad is aggregated after the
  main by one call of \<^verbatim>\<open>add_ingredients_to_list\<close> whose people count is the people count of the
  main if the slot has a main, and 1 if it has none. So its ingredients are accumulated for
  that count, and its name joins the prep list if its \<^verbatim>\<open>meal_prep\<close> flag is set.
\<close>

theorem salad_people_count:
  assumes "sel_salad sel = Some salad_name"
    and "get_meal_by_name salad_name MEALS = Some m"
    and "sel_people sel = None \<longleftrightarrow> sel_name sel = None"
    and "process_selection MEALS d mt sel st = Inr st'"
  shows "\<exists>st1 k. process_main MEALS d mt sel st = Inr st1 \<and>
           (case sel_name sel of None \<Rightarrow> k = 1 | Some main_meal_name \<Rightarrow> sel_people sel = Some k) \<and>
           st' = st1\<lparr>is_plan_empty := False,
                     prep_list := prep_list st1 @
                       (if get_default_opt (meal_prep m) False then [name m] else []),
                     shopping_list := foldl accumulate (shopping_list st1) (meal_contributions m k)\<rparr>"
proof -
  from assms(4) obtain st1 where 1: "process_main MEALS d mt sel st = Inr st1"
    and 2: "process_salad MEALS sel st1 = Inr st'"
    by (auto simp: process_selection_def split: sum.splits)
  define k where "k = get_default_opt (sel_people sel) 1"
  have k: "case sel_name sel of None \<Rightarrow> k = 1 | Some main_meal_name \<Rightarrow> sel_people sel = Some k"
    using assms(3) by (auto simp: k_def get_default_opt_def split: option.splits)
  from 2 assms(1) have 3: "add_ingredients_to_list MEALS salad_name k (st1\<lparr>is_plan_empty := False\<rparr>) = Inr st'"
    by (simp add: process_salad_def Let_def k_def)
  have "portions m \<noteq> 0"
    using 3 add_ingredients_to_list_zero [OF assms(2), of k "st1\<lparr>is_plan_empty := False\<rparr>"]
    by auto
  from add_ingredients_to_list_Some [OF assms(2) this, of k "st1\<lparr>is_plan_empty := False\<rparr>"] 3
  have "st' = st1\<lparr>is_plan_empty := False,
                     prep_list := prep_list st1 @
                       (if get_default_opt (meal_prep m) False then [name m] else []),
                     shopping_list := foldl accumulate (shopping_list st1) (meal_contributions m k)\<rparr>"
    by (simp add: calls_preps_def)
  with 1 k show ?thesis by blast
qed

lemma salad_only_processed:
  "process_selection demo_catalog Monday Lunch salad_only initial_state =
     Inr \<lparr>shopping_list = [(''tomato'', 125, {''g''})], final_plan = [], prep_list = [],
          is_plan_empty = False\<rparr>"
  by code_simp

lemma soup_and_salad_processed:
  "process_selection demo_catalog Monday Lunch soup_and_salad initial_state =
     Inr \<lparr>shopping_list = [(''tomato'', 506, {''g'', ''piece''}), (''onion'', 1, {''piece''})],
          final_plan = [(Monday, [(Lunch, ''Tomato Soup'', ''Medium'')])],
          prep_list = [''Tomato Soup''], is_plan_empty = False\<rparr>"
  by code_simp

lemma tomato_salad_found: "get_meal_by_name ''Tomato Salad'' demo_catalog = Some tomato_salad"
  by code_simp

theorem salad_people_count_witness:
  "(\<exists>st1. process_main demo_catalog Monday Lunch salad_only initial_state = Inr st1 \<and>
      \<lparr>shopping_list = [(''tomato'', 125, {''g''})], final_plan = [], prep_list = [],
       is_plan_empty = False\<rparr> =
      st1\<lparr>is_plan_empty := False,
          prep_list := prep_list st1 @
            (if get_default_opt (meal_prep tomato_salad) False then [name tomato_salad] else []),
          shopping_list := foldl accumulate (shopping_list st1) (meal_contributions tomato_salad 1)\<rparr>) \<and>
   (\<exists>st1. process_main demo_catalog Monday Lunch soup_and_salad initial_state = Inr st1 \<and>
      \<lparr>shopping_list = [(''tomato'', 506, {''g'', ''piece''}), (''onion'', 1, {''piece''})],
       final_plan = [(Monday, [(Lunch, ''Tomato Soup'', ''Medium'')])],
       prep_list = [''Tomato Soup''], is_plan_empty = False\<rparr> =
      st1\<lparr>is_plan_empty := False,
          prep_list := prep_list st1 @
            (if get_default_opt (meal_prep tomato_salad) False then [name tomato_salad] else []),
          shopping_list := foldl accumulate (shopping_list st1) (meal_contributions tomato_salad 4)\<rparr>)"
proof
  show "\<exists>st1. process_main demo_catalog Monday Lunch salad_only initial_state = Inr st1 \<and>
      \<lparr>shopping_list = [(''tomato'', 125, {''g''})], final_plan = [], prep_list = [],
       is_plan_empty = False\<rparr> =
      st1\<lparr>is_plan_empty := False,
          prep_list := prep_list st1 @
            (if get_default_opt (meal_prep tomato_salad) False then [name tomato_salad] else []),
          shopping_list := foldl accumulate (shopping_list st1) (meal_contributions tomato_salad 1)\<rparr>"
    using salad_people_count [OF _ tomato_salad_found _ salad_only_processed]
    by (simp add: salad_only_def)
  show "\<exists>st1. process_main demo_catalog Monday Lunch soup_and_salad initial_state = Inr st1 \<and>
      \<lparr>shopping_list = [(''tomato'', 506, {''g'', ''piece''}), (''onion'', 1, {''piece''})],
       final_plan = [(Monday, [(Lunch, ''Tomato Soup'', ''Medium'')])],
       prep_list = [''Tomato Soup''], is_plan_empty = False\<rparr> =
      st1\<lparr>is_plan_empty := False,
          prep_list := prep_list st1 @
            (if get_default_opt (meal_prep tomato_salad) False then [name tomato_salad] else []),
          shopping_list := foldl accumulate (shopping_list st1) (meal_contributions tomato_salad 4)\<rparr>"
    using salad_people_count [OF _ tomato_salad_found _ soup_and_salad_processed]
    by (simp add: soup_and_salad_def)
qed

section \<open>Scaling\<close>

lemma item_quantities_meal_contributions:
  "item_quantities (meal_contributions m n) x =
     map (\<lambda>i. float_mul (quantity i) (true_div (of_int n) (portions m)))
       (filter (\<lambda>i. item i = x) (ingredients m))"
  by (simp add: item_quantities_def meal_contributions_def filter_map comp_def)

lemma item_units_meal_contributions:
  "item_units (meal_contributions m n) x = unit ` {i \<in> set (ingredients m). item i = x}"
  by (force simp: item_units_def meal_contributions_def image_iff)

lemma one_entry_per_key:
  "distinct (map fst al) \<Longrightarrow> x \<in> fst ` set al \<Longrightarrow> length (filter (\<lambda>e. fst e = x) al) = 1"
proof (induction al)
  case Nil
  then show ?case by simp
next
  case (Cons a al)
  show ?case
  proof (cases "fst a = x")
    case True
    with Cons.prems(1) have "x \<notin> fst ` set al" by simp
    then have "filter (\<lambda>e. fst e = x) al = []"
      by (force simp: filter_empty_conv)
    with True show ?thesis by simp
  next
    case False
    with Cons show ?thesis by auto
  qed
qed

lemma add_ingredients_to_list_totals:
  assumes "get_meal_by_name meal_name MEALS = Some m" and "portions m \<noteq> 0"
  shows "\<exists>st'. add_ingredients_to_list MEALS meal_name n st = Inr st' \<and>
           (distinct (map fst (shopping_list st)) \<longrightarrow> distinct (map fst (shopping_list st'))) \<and>
           fst ` set (shopping_list st') = fst ` set (shopping_list st) \<union> item ` set (ingredients m) \<and>
           (\<forall>x. get_default (shopping_list st') x (0, {}) =
              (foldl float_add (fst (get_default (shopping_list st) x (0, {})))
                 (map (\<lambda>i. float_mul (quantity i) (true_div (of_int n) (portions m)))
                    (filter (\<lambda>i. item i = x) (ingredients m))),
               snd (get_default (shopping_list st) x (0, {})) \<union>
                 unit ` {i \<in> set (ingredients m). item i = x}))"
proof -
  let ?sl = "foldl accumulate (shopping_list st) (meal_contributions m n)"
  have k: "fst ` set ?sl = fst ` set (shopping_list st) \<union> item ` set (ingredients m)"
    by (simp add: foldl_accumulate_keys meal_contributions_def image_comp comp_def)
  have d: "distinct (map fst (shopping_list st)) \<longrightarrow> distinct (map fst ?sl)"
    by (simp add: foldl_accumulate_distinct)
  show ?thesis
    unfolding add_ingredients_to_list_Some [OF assms]
    using d
    by (simp add: k get_default_foldl_accumulate item_quantities_meal_contributions
        item_units_meal_contributions)
qed





section \<open>An item listed twice by one meal\<close>

text \<open>
  Claim C10. When the ingredient list of one resolved meal names an item more than once,
  \<^verbatim>\<open>add_ingredients_to_list\<close> returns without an error, the shopping list has exactly one
  entry for the item, the quantity of the entry is the running total to which the scaled
  quantity of every occurrence has been added, in the order of the ingredients, and its unit
  set is the former set together with the units of all the occurrences.
\<close>

theorem repeated_item_within_a_meal_is_merged:
  assumes "get_meal_by_name meal_name MEALS = Some m" and "portions m \<noteq> 0"
    and "distinct (map fst (shopping_list st))" and "x \<in> item ` set (ingredients m)"
  shows "\<exists>st'. add_ingredients_to_list MEALS meal_name n st = Inr st' \<and>
           length (filter (\<lambda>e. fst e = x) (shopping_list st')) = 1 \<and>
           map_of (shopping_list st') x =
             Some (foldl float_add (fst (get_default (shopping_list st) x (0, {})))
                     (map (\<lambda>i. float_mul (quantity i) (true_div (of_int n) (portions m)))
                        (filter (\<lambda>i. item i = x) (ingredients m))),
                   snd (get_default (shopping_list st) x (0, {})) \<union>
                     unit ` {i \<in> set (ingredients m). item i = x})"
proof -
  from add_ingredients_to_list_totals [OF assms(1,2), of n st] assms(3) obtain st' where
    st': "add_ingredients_to_list MEALS meal_name n st = Inr st'"
    and d: "distinct (map fst (shopping_list st'))"
    and k: "fst ` set (shopping_list st') = fst ` set (shopping_list st) \<union> item ` set (ingredients m)"
    and t: "get_default (shopping_list st') x (0, {}) =
              (foldl float_add (fst (get_default (shopping_list st) x (0, {})))
                 (map (\<lambda>i. float_mul (quantity i) (true_div (of_int n) (portions m)))
                    (filter (\<lambda>i. item i = x) (ingredients m))),
               snd (get_default (shopping_list st) x (0, {})) \<union>
                 unit ` {i \<in> set (ingredients m). item i = x})"
    by blast
  from k assms(4) have x: "x \<in> fst ` set (shopping_list st')" by simp
  with d have "length (filter (\<lambda>e. fst e = x) (shopping_list st')) = 1"
    by (rule one_entry_per_key)
  moreover from x obtain v where v: "map_of (shopping_list st') x = Some v"
    by (metis map_of_eq_None_iff not_Some_eq)
  then have "get_default (shopping_list st') x (0, {}) = v"
    by (simp add: get_default_def)
  with t v have "map_of (shopping_list st') x =
             Some (foldl float_add (fst (get_default (shopping_list st) x (0, {})))
                     (map (\<lambda>i. float_mul (quantity i) (true_div (of_int n) (portions m)))
                        (filter (\<lambda>i. item i = x) (ingredients m))),
                   snd (get_default (shopping_list st) x (0, {})) \<union>
                     unit ` {i \<in> set (ingredients m). item i = x})"
    by simp
  ultimately show ?thesis using st' by blast
qed

lemma pancakes_found: "get_meal_by_name ''Pancakes'' demo_catalog = Some pancakes"
  by code_simp

lemma pancakes_added:
  "add_ingredients_to_list demo_catalog ''Pancakes'' 3 initial_state =
     Inr \<lparr>shopping_list = [(''flour'', 306, {''g'', ''tbsp''}), (''milk'', 600, {''ml''})],
          final_plan = [], prep_list = [], is_plan_empty = True\<rparr>"
  by code_simp

theorem repeated_item_within_a_meal_is_merged_witness:
  "get_meal_by_name ''Pancakes'' demo_catalog = Some pancakes \<and>
   map item (ingredients pancakes) = [''flour'', ''milk'', ''flour''] \<and>
   add_ingredients_to_list demo_catalog ''Pancakes'' 3 initial_state =
     Inr \<lparr>shopping_list = [(''flour'', 306, {''g'', ''tbsp''}), (''milk'', 600, {''ml''})],
          final_plan = [], prep_list = [], is_plan_empty = True\<rparr> \<and>
   Some (306, {''g'', ''tbsp''}) =
     Some (foldl float_add (fst (get_default (shopping_list initial_state) ''flour'' (0, {})))
             (map (\<lambda>i. float_mul (quantity i) (true_div (of_int 3) (portions pancakes)))
                (filter (\<lambda>i. item i = ''flour'') (ingredients pancakes))),
           snd (get_default (shopping_list initial_state) ''flour'' (0, {})) \<union>
             unit ` {i \<in> set (ingredients pancakes). item i = ''flour''})"
proof -
  have p: "portions pancakes \<noteq> 0"
    by (simp add: portions_def get_default_opt_def pancakes_def)
  have d: "distinct (map fst (shopping_list initial_state))"
    by (simp add: initial_state_def)
  have i: "map item (ingredients pancakes) = [''flour'', ''milk'', ''flour'']"
    by (simp add: pancakes_def)
  then have x: "''flour'' \<in> item ` set (ingredients pancakes)"
    by (metis list.set_intros(1) set_map)
  from repeated_item_within_a_meal_is_merged [OF pancakes_found p d x, of 3]
  have "Some (306, {''g'', ''tbsp''}) =
     Some (foldl float_add (fst (get_default (shopping_list initial_state) ''flour'' (0, {})))
             (map (\<lambda>i. float_mul (quantity i) (true_div (of_int 3) (portions pancakes)))
                (filter (\<lambda>i. item i = ''flour'') (ingredients pancakes))),
           snd (get_default (shopping_list initial_state) ''flour'' (0, {})) \<union>
             unit ` {i \<in> set (ingredients pancakes). item i = ''flour''})"
    unfolding pancakes_added by simp
  with pancakes_found i pancakes_added show ?thesis by (intro conjI)
qed

end
